theory Spec2Isabelle
  imports Complex_Main
begin

section \<open>Text primitives of the Python runtime\<close>

text \<open>
  A Python \<open>str\<close> is modelled as a HOL \<open>string\<close>; a character is read as the code point
  of the same number (0 to 255). On this range \<open>str.lower\<close> changes a character that
  matters to the pattern \<open>[a-zA-Z']+\<close> only when it is one of \<open>A\<close> to \<open>Z\<close>, and the
  characters that \<open>str.isspace\<close>, \<open>str.strip\<close> and the pattern \<open>\s\<close> treat as white space
  are the twelve listed in \<open>is_space\<close>.
\<close>

definition is_space :: "char \<Rightarrow> bool" where
  "is_space c = (c \<in> set [CHR 0x09, CHR 0x0A, CHR 0x0B, CHR 0x0C, CHR 0x0D, CHR 0x1C, CHR 0x1D,
                           CHR 0x1E, CHR 0x1F, CHR 0x20, CHR 0x85, CHR 0xA0])"

text \<open>\<open>s.strip()\<close>: white space removed at both ends.\<close>

definition strip :: "string \<Rightarrow> string" where
  "strip s = rev (dropWhile is_space (rev (dropWhile is_space s)))"

definition lower_char :: "char \<Rightarrow> char" where
  "lower_char c =
     (case map_of (zip ''ABCDEFGHIJKLMNOPQRSTUVWXYZ'' ''abcdefghijklmnopqrstuvwxyz'') c of
        Some l \<Rightarrow> l
      | None \<Rightarrow> c)"

text \<open>\<open>s.lower()\<close>.\<close>

definition lower :: "string \<Rightarrow> string" where
  "lower s = map lower_char s"

text \<open>The character class \<open>[a-zA-Z']\<close>.\<close>

definition is_word_char :: "char \<Rightarrow> bool" where
  "is_word_char c =
     (c \<in> set (''abcdefghijklmnopqrstuvwxyz'' @ ''ABCDEFGHIJKLMNOPQRSTUVWXYZ'' @ [CHR 0x27]))"

text \<open>
  \<open>re.findall(r"[a-zA-Z']+", s)\<close>: the maximal runs of word characters, left to right.
  The first argument is the run being read.
\<close>

fun findall_words :: "string \<Rightarrow> string \<Rightarrow> string list" where
  "findall_words cur [] = (if cur = [] then [] else [cur])"
| "findall_words cur (c # cs) =
     (if is_word_char c then findall_words (cur @ [c]) cs
      else (if cur = [] then [] else [cur]) @ findall_words [] cs)"

text \<open>
  \<open>re.sub(r"\s+", " ", s)\<close>: every maximal run of white space becomes one space. The flag
  says that the previous character belonged to a run already replaced.
\<close>

fun sub_ws_run :: "bool \<Rightarrow> string \<Rightarrow> string" where
  "sub_ws_run in_run [] = []"
| "sub_ws_run in_run (c # cs) =
     (if is_space c then (if in_run then sub_ws_run True cs else CHR 0x20 # sub_ws_run True cs)
      else c # sub_ws_run False cs)"

definition sub_ws :: "string \<Rightarrow> string" where
  "sub_ws s = sub_ws_run False s"

text \<open>\<open>s.startswith(p)\<close>.\<close>

definition startswith :: "string \<Rightarrow> string \<Rightarrow> bool" where
  "startswith s p = (take (length p) s = p)"

text \<open>\<open>str(n)\<close> for a natural number, as an f-string renders it.\<close>

fun str_nat :: "nat \<Rightarrow> string" where
  "str_nat n =
     (if n < 10 then [''0123456789'' ! n]
      else str_nat (n div 10) @ [''0123456789'' ! (n mod 10)])"

declare str_nat.simps [simp del]

text \<open>\<open>sep.join(xs)\<close>.\<close>

fun join :: "string \<Rightarrow> string list \<Rightarrow> string" where
  "join sep [] = []"
| "join sep [x] = x"
| "join sep (x # y # ys) = x @ sep @ join sep (y # ys)"

section \<open>The Redis store\<close>

text \<open>
  The records that the program serialises with \<open>json.dumps\<close> and reads back with
  \<open>json.loads\<close>. The store of the model holds the records themselves: the JSON text of a
  record of strings and numbers decodes to the same record.
\<close>

record message =
  m_role :: string
  m_content :: string
  m_ts :: real

record chat =
  c_chat_id :: string
  c_title :: string
  c_created :: real

text \<open>
  A value of the key space: a string value that is plain text (the language code), a string
  value that is the JSON text of a chat list, or a list value whose items are the JSON texts
  of messages.
\<close>

datatype rvalue = RText string | RChats "chat list" | RList "message list"

type_synonym redis = "string \<Rightarrow> rvalue option"

datatype error = WrongType | JSONDecodeError | HTTPException nat string

text \<open>\<open>GET key\<close>: no value for a missing key, an error for a key that holds a list.\<close>

definition r_get :: "redis \<Rightarrow> string \<Rightarrow> error + rvalue option" where
  "r_get r k =
     (case r k of
        None \<Rightarrow> Inr None
      | Some (RList xs) \<Rightarrow> Inl WrongType
      | Some v \<Rightarrow> Inr (Some v))"

text \<open>\<open>SET key value\<close> overwrites whatever the key held.\<close>

definition r_set :: "redis \<Rightarrow> string \<Rightarrow> rvalue \<Rightarrow> redis" where
  "r_set r k v = r(k \<mapsto> v)"

text \<open>\<open>RPUSH key item\<close>: creates the list when the key is missing.\<close>

definition r_rpush :: "redis \<Rightarrow> string \<Rightarrow> message \<Rightarrow> error + redis" where
  "r_rpush r k x =
     (case r k of
        None \<Rightarrow> Inr (r(k \<mapsto> RList [x]))
      | Some (RList xs) \<Rightarrow> Inr (r(k \<mapsto> RList (xs @ [x])))
      | Some v \<Rightarrow> Inl WrongType)"

text \<open>
  The index arithmetic that \<open>LTRIM\<close> and \<open>LRANGE\<close> share: a negative index counts from the
  end, the start is clamped to 0 and the stop to the last index, both ends are inclusive,
  and a start beyond the stop or beyond the list selects nothing.
\<close>

definition list_range :: "'a list \<Rightarrow> int \<Rightarrow> int \<Rightarrow> 'a list" where
  "list_range xs start stop =
     (let llen = int (length xs);
          start1 = (if start < 0 then llen + start else start);
          stop1 = (if stop < 0 then llen + stop else stop);
          start2 = (if start1 < 0 then 0 else start1)
      in if start2 > stop1 \<or> start2 \<ge> llen then []
         else let stop2 = (if stop1 \<ge> llen then llen - 1 else stop1)
              in take (nat (stop2 - start2 + 1)) (drop (nat start2) xs))"

text \<open>\<open>LTRIM key start stop\<close>: a list trimmed to nothing is removed with its key.\<close>

definition r_ltrim :: "redis \<Rightarrow> string \<Rightarrow> int \<Rightarrow> int \<Rightarrow> error + redis" where
  "r_ltrim r k start stop =
     (case r k of
        None \<Rightarrow> Inr r
      | Some (RList xs) \<Rightarrow>
          (let ys = list_range xs start stop
           in Inr (if ys = [] then r(k := None) else r(k \<mapsto> RList ys)))
      | Some v \<Rightarrow> Inl WrongType)"

text \<open>\<open>LRANGE key start stop\<close>.\<close>

definition r_lrange :: "redis \<Rightarrow> string \<Rightarrow> int \<Rightarrow> int \<Rightarrow> error + message list" where
  "r_lrange r k start stop =
     (case r k of
        None \<Rightarrow> Inr []
      | Some (RList xs) \<Rightarrow> Inr (list_range xs start stop)
      | Some v \<Rightarrow> Inl WrongType)"

text \<open>
  \<open>json.loads(value or "[]")\<close> on the result of a \<open>GET\<close>: a missing key and the empty string
  read as the empty list; plain text that is not JSON makes the decoder raise.
\<close>

definition loads_chats :: "rvalue option \<Rightarrow> error + chat list" where
  "loads_chats v =
     (case v of
        None \<Rightarrow> Inr []
      | Some (RChats cs) \<Rightarrow> Inr cs
      | Some (RText t) \<Rightarrow> (if t = [] then Inr [] else Inl JSONDecodeError)
      | Some (RList xs) \<Rightarrow> Inl WrongType)"

section \<open>Redis key helpers\<close>

definition user_chats_key :: "string \<Rightarrow> string" where
  "user_chats_key uid = ''user:'' @ uid @ '':chats''"

definition chat_history_key :: "string \<Rightarrow> string \<Rightarrow> string" where
  "chat_history_key uid cid = ''chat:'' @ uid @ '':'' @ cid @ '':history''"

definition user_lang_key :: "string \<Rightarrow> string" where
  "user_lang_key uid = ''user:'' @ uid @ '':lang''"

section \<open>Utilities\<close>

definition hindi_keywords :: "string list" where
  "hindi_keywords =
     [''kya'', ''kaise'', ''hai'', ''hain'', ''nahi'', ''haan'', ''tum'', ''mera'', ''tera'',
      ''kyu'', ''kyon'', ''batao'', ''pyaar'', ''yaar'', ''acha'', ''theek'', ''samjha'', ''kar'',
      ''kya'', ''kuch'', ''kal'', ''abhi'', ''chalo'', ''bolo'']"

definition english_words :: "string list" where
  "english_words =
     [''i'', ''you'', ''the'', ''is'', ''are'', ''love'', ''good'', ''ok'', ''what'', ''how'', ''do'']"

definition hindi_hits :: "string \<Rightarrow> nat" where
  "hindi_hits text =
     length (filter (\<lambda>w. w \<in> set hindi_keywords) (findall_words [] (lower text)))"

definition eng_hits :: "string \<Rightarrow> nat" where
  "eng_hits text =
     length (filter (\<lambda>w. w \<in> set english_words) (findall_words [] (lower text)))"

text \<open>
  The statistical detector \<open>langdetect.detect\<close> is a parameter: it returns a language code,
  or \<open>None\<close> where it raises. The handler replaces a raise by the code \<open>en\<close>.
\<close>

definition stat_code :: "(string \<Rightarrow> string option) \<Rightarrow> string \<Rightarrow> string" where
  "stat_code detect text = (case detect text of None \<Rightarrow> ''en'' | Some code \<Rightarrow> code)"

definition detect_lang_safe :: "(string \<Rightarrow> string option) \<Rightarrow> string \<Rightarrow> string" where
  "detect_lang_safe detect text =
     (let code = stat_code detect text
      in if startswith code ''hi'' \<or> hindi_hits text \<ge> 2 then ''hi''
         else if hindi_hits text \<noteq> 0 \<and> eng_hits text \<noteq> 0 then ''hi''
         else ''en'')"

text \<open>
  \<open>create_chat_for_user\<close>. The text of \<open>str(uuid.uuid4())\<close> and the clock reading of
  \<open>time.time()\<close> are inputs. The result is the new identifier and the store after the call.
\<close>

definition create_chat_for_user ::
  "redis \<Rightarrow> string \<Rightarrow> string option \<Rightarrow> string \<Rightarrow> real \<Rightarrow> error + (string \<times> redis)" where
  "create_chat_for_user r uid title uuid4 now =
     (let cid = take 8 uuid4
      in case r_get r (user_chats_key uid) of
           Inl e \<Rightarrow> Inl e
         | Inr v \<Rightarrow>
             (case loads_chats v of
                Inl e \<Rightarrow> Inl e
              | Inr chatlist \<Rightarrow>
                  (let dflt = ''Chat '' @ str_nat (length chatlist + 1);
                       title1 = (case title of None \<Rightarrow> dflt | Some t \<Rightarrow> if t \<noteq> [] then t else dflt);
                       chatlist1 = chatlist @ [\<lparr>c_chat_id = cid, c_title = title1, c_created = now\<rparr>]
                   in Inr (cid, r_set r (user_chats_key uid) (RChats chatlist1)))))"

definition list_user_chats :: "redis \<Rightarrow> string \<Rightarrow> error + chat list" where
  "list_user_chats r uid =
     (case r_get r (user_chats_key uid) of
        Inl e \<Rightarrow> Inl e
      | Inr v \<Rightarrow> loads_chats v)"

text \<open>\<open>append_message\<close>: push, then trim to the range from \<open>-MAX_CONTEXT\<close> to \<open>-1\<close>.\<close>

definition append_message ::
  "int \<Rightarrow> redis \<Rightarrow> string \<Rightarrow> string \<Rightarrow> string \<Rightarrow> string \<Rightarrow> real \<Rightarrow> error + redis" where
  "append_message MAX_CONTEXT r uid cid role content now =
     (let key = chat_history_key uid cid;
          msg = \<lparr>m_role = role, m_content = content, m_ts = now\<rparr>
      in case r_rpush r key msg of
           Inl e \<Rightarrow> Inl e
         | Inr r1 \<Rightarrow> r_ltrim r1 key (- MAX_CONTEXT) (- 1))"

definition get_chat_history :: "redis \<Rightarrow> string \<Rightarrow> string \<Rightarrow> error + message list" where
  "get_chat_history r uid cid = r_lrange r (chat_history_key uid cid) 0 (- 1)"

section \<open>The send endpoint\<close>

text \<open>The JSON body of a request: each of the three keys may be missing.\<close>

record request =
  d_uid :: "string option"
  d_chat_id :: "string option"
  d_message :: "string option"

text \<open>
  A chunk of the provider's stream: its \<open>text\<close> attribute (\<open>None\<close> when the chunk has
  none) and its \<open>str\<close> rendering.
\<close>

datatype chunk = Chunk (chunk_text: "string option") (chunk_str: string)

text \<open>
  What the completion provider does with a prompt: the call raises before any stream
  exists, or it returns a stream that yields its chunks and then ends, normally (\<open>None\<close>)
  or by raising an exception with the given text.
\<close>

datatype provider_result = Raises string | Stream "chunk list" "string option"

text \<open>The inputs of one request that the code takes from its environment.\<close>

record env =
  e_uuid4 :: string
  e_time_chat :: real
  e_time_user :: real
  e_time_reply :: real
  e_detect :: "string \<Rightarrow> string option"
  e_generate :: "string \<Rightarrow> provider_result"

text \<open>
  The outcome of the endpoint: an exception raised before the response starts (the
  framework answers with the error's status), or a streamed response: the fragments sent,
  and the error that cut the stream short if there was one.
\<close>

datatype response = HTTPError error | StreamingResponse "string list" "error option"

definition nl :: string where
  "nl = [CHR 0x0A]"

definition fallback :: string where
  "fallback = ''Sorry, thoda issue ho gaya, try again''"

definition context_text :: "message list \<Rightarrow> string" where
  "context_text history = join nl (map (\<lambda>m. m_role m @ '': '' @ m_content m) history)"

definition build_prompt :: "message list \<Rightarrow> string \<Rightarrow> string \<Rightarrow> string" where
  "build_prompt history user_lang user_msg =
     ''You are Ira, a warm and affectionate companion. Follow these rules strictly:'' @ nl @
     ''- Reply in 5 to 10 words only.'' @ nl @
     ''- Keep responses incomplete (do not end with a final punctuation).'' @ nl @
     ''- Tone: friendly, caring, sometimes romantic when appropriate; add emoji naturally.'' @ nl @
     ''- Sound like a close friend and ask gentle follow-up questions when needed.'' @ nl @
     ''- Mirror the user'' @ [CHR 0x27] @ ''s language. The user'' @ [CHR 0x27] @
     ''s last language code: '' @ user_lang @ nl @
     ''- Avoid repeating earlier assistant replies.'' @ nl @
     ''- Use the conversation context below.'' @ nl @ nl @
     ''Conversation:'' @ nl @ context_text history @ nl @ nl @
     ''User: '' @ user_msg @ nl @ ''Assistant:''"

text \<open>The piece taken from a chunk: its text when it has a non-empty one, else \<open>str(chunk)\<close>.\<close>

definition piece_of :: "chunk \<Rightarrow> string" where
  "piece_of ch =
     (case chunk_text ch of
        Some t \<Rightarrow> (if t \<noteq> [] then t else chunk_str ch)
      | None \<Rightarrow> chunk_str ch)"

text \<open>
  The loop of \<open>event_stream\<close> over the chunks: the text collected so far and the fragments
  yielded so far.
\<close>

fun stream_loop :: "chunk list \<Rightarrow> string \<Rightarrow> string list \<Rightarrow> string \<times> string list" where
  "stream_loop [] collected yielded = (collected, yielded)"
| "stream_loop (ch # rest) collected yielded =
     (let piece = piece_of ch
      in stream_loop rest (collected @ piece) (yielded @ [piece]))"

text \<open>
  \<open>event_stream\<close>, run to its end: the loop, the diagnostic fragment of the handler when the
  stream raised, and the \<open>finally\<close> block that commits the normalised text.
\<close>

definition event_stream ::
  "int \<Rightarrow> redis \<Rightarrow> string \<Rightarrow> string \<Rightarrow> real \<Rightarrow> chunk list \<Rightarrow> string option \<Rightarrow> response \<times> redis" where
  "event_stream MAX_CONTEXT r uid cid now chunks err =
     (case stream_loop chunks [] [] of
        (collected, yielded) \<Rightarrow>
          (let yielded1 = (case err of
                             None \<Rightarrow> yielded
                           | Some e \<Rightarrow> yielded @ [nl @ ''[Error: '' @ e @ '']'']);
               final = strip (sub_ws collected)
           in if final \<noteq> [] then
                (case append_message MAX_CONTEXT r uid cid ''assistant'' final now of
                   Inl e \<Rightarrow> (StreamingResponse yielded1 (Some e), r)
                 | Inr r1 \<Rightarrow> (StreamingResponse yielded1 None, r1))
              else (StreamingResponse yielded1 None, r)))"

text \<open>
  The chat the request works on: the one it names, or a new one when it names none (a
  missing or empty \<open>chat_id\<close>).
\<close>

definition resolve_chat :: "env \<Rightarrow> redis \<Rightarrow> string \<Rightarrow> string option \<Rightarrow> error + (string \<times> redis)" where
  "resolve_chat ev r uid cid =
     (case cid of
        Some c \<Rightarrow>
          (if c \<noteq> [] then Inr (c, r)
           else create_chat_for_user r uid None (e_uuid4 ev) (e_time_chat ev))
      | None \<Rightarrow> create_chat_for_user r uid None (e_uuid4 ev) (e_time_chat ev))"

text \<open>\<open>r.get(user_lang_key(uid)) or "en"\<close>.\<close>

definition read_user_lang :: "redis \<Rightarrow> string \<Rightarrow> error + string" where
  "read_user_lang r uid =
     (case r_get r (user_lang_key uid) of
        Inl e \<Rightarrow> Inl e
      | Inr v \<Rightarrow>
          Inr (case v of
                 Some (RText t) \<Rightarrow> (if t \<noteq> [] then t else ''en'')
               | Some (RChats cs) \<Rightarrow> ''en''
               | Some (RList xs) \<Rightarrow> ''en''
               | None \<Rightarrow> ''en''))"

text \<open>
  The first part of \<open>api_send\<close>, up to the prompt: the check of the message, the chat, the
  user's turn, the language, the history and the prompt. It raises (the error, with the
  store as it is then), or gives the user, the chat, the prompt and the store.
\<close>

definition api_send_prepare ::
  "int \<Rightarrow> env \<Rightarrow> redis \<Rightarrow> request \<Rightarrow> (error \<times> redis) + (string \<times> string \<times> string \<times> redis)" where
  "api_send_prepare MAX_CONTEXT ev r data =
     (let uid = (case d_uid data of None \<Rightarrow> ''demo_user'' | Some u \<Rightarrow> u);
          user_msg = strip (case d_message data of None \<Rightarrow> [] | Some m \<Rightarrow> m)
      in if user_msg = [] then Inl (HTTPException 400 ''message required'', r)
         else
           (case resolve_chat ev r uid (d_chat_id data) of
              Inl e \<Rightarrow> Inl (e, r)
            | Inr (cid, r1) \<Rightarrow>
                (case append_message MAX_CONTEXT r1 uid cid ''user'' user_msg (e_time_user ev) of
                   Inl e \<Rightarrow> Inl (e, r1)
                 | Inr r2 \<Rightarrow>
                     (let detected = detect_lang_safe (e_detect ev) user_msg;
                          r3 = r_set r2 (user_lang_key uid) (RText detected)
                      in case get_chat_history r3 uid cid of
                           Inl e \<Rightarrow> Inl (e, r3)
                         | Inr history \<Rightarrow>
                             (case read_user_lang r3 uid of
                                Inl e \<Rightarrow> Inl (e, r3)
                              | Inr user_lang \<Rightarrow>
                                  Inr (uid, cid, build_prompt history user_lang user_msg, r3))))))"

text \<open>
  \<open>api_send\<close>: the response, and the store once the response has been streamed to its end.
  After the first part comes the call of the provider: the fallback reply when the call
  raises, the stream otherwise.
\<close>

definition api_send :: "int \<Rightarrow> env \<Rightarrow> redis \<Rightarrow> request \<Rightarrow> response \<times> redis" where
  "api_send MAX_CONTEXT ev r data =
     (case api_send_prepare MAX_CONTEXT ev r data of
        Inl (e, r0) \<Rightarrow> (HTTPError e, r0)
      | Inr (uid, cid, prompt, r3) \<Rightarrow>
          (case e_generate ev prompt of
             Raises e \<Rightarrow>
               (case append_message MAX_CONTEXT r3 uid cid ''assistant'' fallback
                       (e_time_reply ev) of
                  Inl e1 \<Rightarrow> (HTTPError e1, r3)
                | Inr r4 \<Rightarrow> (StreamingResponse [fallback] None, r4))
           | Stream chunks err \<Rightarrow>
               event_stream MAX_CONTEXT r3 uid cid (e_time_reply ev) chunks err))"

section \<open>Sequences of calls\<close>

text \<open>
  A sequence of \<open>append_message\<close> calls on one chat, one call for each message of the list
  (its role, its content and the clock reading of the call), stopping at the first error.
\<close>

fun append_messages :: "int \<Rightarrow> redis \<Rightarrow> string \<Rightarrow> string \<Rightarrow> message list \<Rightarrow> error + redis" where
  "append_messages MAX_CONTEXT r uid cid [] = Inr r"
| "append_messages MAX_CONTEXT r uid cid (m # ms) =
     (case append_message MAX_CONTEXT r uid cid (m_role m) (m_content m) (m_ts m) of
        Inl e \<Rightarrow> Inl e
      | Inr r1 \<Rightarrow> append_messages MAX_CONTEXT r1 uid cid ms)"

text \<open>The history key of a chat holds no string value, so that a push to it is accepted.\<close>

definition history_ok :: "redis \<Rightarrow> string \<Rightarrow> string \<Rightarrow> bool" where
  "history_ok r uid cid =
     (case r (chat_history_key uid cid) of
        None \<Rightarrow> True
      | Some (RList xs) \<Rightarrow> True
      | Some (RText t) \<Rightarrow> False
      | Some (RChats cs) \<Rightarrow> False)"

text \<open>The messages a chat holds in the store (none when its key is missing).\<close>

definition stored :: "redis \<Rightarrow> string \<Rightarrow> string \<Rightarrow> message list" where
  "stored r uid cid =
     (case r (chat_history_key uid cid) of
        Some (RList xs) \<Rightarrow> xs
      | Some (RText t) \<Rightarrow> []
      | Some (RChats cs) \<Rightarrow> []
      | None \<Rightarrow> [])"

text \<open>What \<open>get_chat_history\<close> returns after a sequence of \<open>append_message\<close> calls.\<close>

definition history_after ::
  "int \<Rightarrow> redis \<Rightarrow> string \<Rightarrow> string \<Rightarrow> message list \<Rightarrow> error + message list" where
  "history_after MAX_CONTEXT r uid cid ms =
     (case append_messages MAX_CONTEXT r uid cid ms of
        Inl e \<Rightarrow> Inl e
      | Inr r1 \<Rightarrow> get_chat_history r1 uid cid)"

text \<open>
  The words of a text: its maximal runs of characters that are not white space, left to
  right. The first argument is the word being read.
\<close>

fun ws_words :: "string \<Rightarrow> string \<Rightarrow> string list" where
  "ws_words cur [] = (if cur = [] then [] else [cur])"
| "ws_words cur (c # cs) =
     (if is_space c then (if cur = [] then [] else [cur]) @ ws_words [] cs
      else ws_words (cur @ [c]) cs)"

text \<open>
  Normal form of a text, in the words of the specification: its words, one space between
  two of them, nothing before the first and nothing after the last.
\<close>

definition normalized :: "string \<Rightarrow> string" where
  "normalized s = join [CHR 0x20] (ws_words [] s)"

text \<open>The diagnostic fragment that follows a failure of the stream, if there was one.\<close>

definition diagnostic :: "string option \<Rightarrow> string list" where
  "diagnostic err = (case err of None \<Rightarrow> [] | Some e \<Rightarrow> [nl @ ''[Error: '' @ e @ '']''])"

text \<open>The chat list key of a user holds nothing that makes reading the chat list raise.\<close>

definition chats_ok :: "redis \<Rightarrow> string \<Rightarrow> bool" where
  "chats_ok r uid =
     (case r (user_chats_key uid) of
        None \<Rightarrow> True
      | Some (RChats cs) \<Rightarrow> True
      | Some (RText t) \<Rightarrow> t = []
      | Some (RList xs) \<Rightarrow> False)"

text \<open>The fragments that a response delivers to the client.\<close>

definition streamed :: "response \<Rightarrow> string list" where
  "streamed resp = (case resp of HTTPError e \<Rightarrow> [] | StreamingResponse fragments e \<Rightarrow> fragments)"

text \<open>
  A concrete request and environment for the scenarios: user \<open>u1\<close> sends \<open>hello\<close> to the
  chat \<open>c1\<close>, the detector raises on so short a text, and the provider does as given.
\<close>

definition example_request :: request where
  "example_request = \<lparr>d_uid = Some ''u1'', d_chat_id = Some ''c1'', d_message = Some ''hello''\<rparr>"

definition example_env :: "provider_result \<Rightarrow> env" where
  "example_env outcome =
     \<lparr>e_uuid4 = ''3f2b8c1e-9a4d-4e6f-8b7a-1c2d3e4f5a6b'', e_time_chat = 1, e_time_user = 2,
      e_time_reply = 3, e_detect = (\<lambda>t. None), e_generate = (\<lambda>p. outcome)\<rparr>"

text \<open>
  The reply text shown to the client by a response: its fragments concatenated, without the
  diagnostic fragment that ends the stream when the provider failed in mid-stream.
\<close>

definition shown_reply :: "provider_result \<Rightarrow> response \<Rightarrow> string" where
  "shown_reply outcome resp =
     concat (case outcome of
               Raises e \<Rightarrow> streamed resp
             | Stream chunks None \<Rightarrow> streamed resp
             | Stream chunks (Some e) \<Rightarrow> butlast (streamed resp))"

text \<open>
  The user and the chat that a request works on, if it gets as far as its first store call:
  the chat it names, or the new one.
\<close>

definition request_uid :: "request \<Rightarrow> string" where
  "request_uid data = (case d_uid data of None \<Rightarrow> ''demo_user'' | Some u \<Rightarrow> u)"

definition request_cid :: "env \<Rightarrow> request \<Rightarrow> string" where
  "request_cid ev data =
     (case d_chat_id data of
        Some c \<Rightarrow> (if c \<noteq> [] then c else take 8 (e_uuid4 ev))
      | None \<Rightarrow> take 8 (e_uuid4 ev))"

text \<open>
  The three operations that write to the store, as calls with their arguments and the
  inputs they take from the environment.
\<close>

datatype call =
    AppendMessage string string string string real
  | CreateChat string "string option" string real
  | SendMessage env request

text \<open>The history keys that a call may push to.\<close>

fun call_keys :: "call \<Rightarrow> string list" where
  "call_keys (AppendMessage uid cid role content now) = [chat_history_key uid cid]"
| "call_keys (CreateChat uid title uuid4 now) = []"
| "call_keys (SendMessage ev data) = [chat_history_key (request_uid data) (request_cid ev data)]"

text \<open>The store after a call, whether the call returned or raised.\<close>

fun step :: "int \<Rightarrow> redis \<Rightarrow> call \<Rightarrow> redis" where
  "step MAX_CONTEXT r (AppendMessage uid cid role content now) =
     (case append_message MAX_CONTEXT r uid cid role content now of
        Inl e \<Rightarrow> r
      | Inr r1 \<Rightarrow> r1)"
| "step MAX_CONTEXT r (CreateChat uid title uuid4 now) =
     (case create_chat_for_user r uid title uuid4 now of
        Inl e \<Rightarrow> r
      | Inr (cid, r1) \<Rightarrow> r1)"
| "step MAX_CONTEXT r (SendMessage ev data) = snd (api_send MAX_CONTEXT ev r data)"

text \<open>The store after a sequence of calls.\<close>

definition run_calls :: "int \<Rightarrow> redis \<Rightarrow> call list \<Rightarrow> redis" where
  "run_calls MAX_CONTEXT r calls = foldl (step MAX_CONTEXT) r calls"

section \<open>Trimming keeps the last messages\<close>

lemma list_range_last:
  assumes "0 < n"
  shows "list_range xs (- n) (- 1) = drop (length xs - nat n) xs"
proof (cases "xs = []")
  case True
  then show ?thesis by (simp add: list_range_def Let_def)
next
  case False
  then have len: "0 < length xs" by simp
  show ?thesis
  proof (cases "n \<le> int (length xs)")
    case True
    with assms len have "nat (int (length xs) - n) = length xs - nat n" by linarith
    with True assms len show ?thesis
      by (simp add: list_range_def Let_def)
  next
    case False
    with assms len show ?thesis
      by (simp add: list_range_def Let_def)
  qed
qed

lemma list_range_all: "list_range xs 0 (- 1) = xs"
  by (cases "xs = []") (simp_all add: list_range_def Let_def)

lemma get_chat_history_stored:
  "history_ok r uid cid \<Longrightarrow> get_chat_history r uid cid = Inr (stored r uid cid)"
  by (auto simp: history_ok_def get_chat_history_def r_lrange_def stored_def list_range_all
      split: option.splits rvalue.splits)

lemma append_message_step:
  assumes "0 < n" and "history_ok r uid cid"
  shows "append_message n r uid cid role content now =
     Inr (r(chat_history_key uid cid \<mapsto>
        RList (drop (Suc (length (stored r uid cid)) - nat n)
           (stored r uid cid @ [\<lparr>m_role = role, m_content = content, m_ts = now\<rparr>]))))"
proof -
  have ne: "drop (Suc (length xs) - nat n) (xs @ [x]) \<noteq> []" for xs :: "message list" and x
    using assms(1) by simp
  show ?thesis
    using assms(2) ne
    by (auto simp: history_ok_def append_message_def r_rpush_def r_ltrim_def stored_def
        list_range_last [OF assms(1)] Let_def split: option.splits rvalue.splits)
qed

lemma drop_last_append:
  "drop (length (drop (length zs - k) zs @ ms) - k) (drop (length zs - k) zs @ ms)
     = drop (length (zs @ ms) - k) (zs @ ms)"
proof (cases "length zs \<le> k")
  case True
  then show ?thesis by simp
next
  case False
  then have "length zs - k + length ms = length zs + length ms - k" by simp
  with False show ?thesis by (simp add: drop_append add.commute)
qed

lemma history_ok_upd: "history_ok (r(chat_history_key uid cid \<mapsto> RList ys)) uid cid"
  by (simp add: history_ok_def)

lemma stored_upd: "stored (r(chat_history_key uid cid \<mapsto> RList ys)) uid cid = ys"
  by (simp add: stored_def)

lemma append_messages_run:
  assumes "0 < n"
  shows "history_ok r uid cid \<Longrightarrow>
     \<exists>r1. append_messages n r uid cid ms = Inr r1 \<and> history_ok r1 uid cid \<and>
       stored r1 uid cid =
         (if ms = [] then stored r uid cid
          else drop (length (stored r uid cid @ ms) - nat n) (stored r uid cid @ ms))"
proof (induction ms arbitrary: r)
  case Nil
  then show ?case by simp
next
  case (Cons m ms)
  let ?xs = "stored r uid cid"
  let ?ys = "drop (Suc (length ?xs) - nat n) (?xs @ [m])"
  let ?r = "r(chat_history_key uid cid \<mapsto> RList ?ys)"
  have step: "append_message n r uid cid (m_role m) (m_content m) (m_ts m) = Inr ?r"
  proof -
    have "\<lparr>m_role = m_role m, m_content = m_content m, m_ts = m_ts m\<rparr> = m" by simp
    with append_message_step [OF assms Cons.prems, of "m_role m" "m_content m" "m_ts m"]
    show ?thesis by (simp only:)
  qed
  have ok: "history_ok ?r uid cid" by (rule history_ok_upd)
  have st0: "stored ?r uid cid = ?ys" by (simp only: stored_upd)
  from Cons.IH [OF ok] obtain r1 where
    run: "append_messages n ?r uid cid ms = Inr r1" and ok1: "history_ok r1 uid cid" and
    st1: "stored r1 uid cid =
       (if ms = [] then stored ?r uid cid
        else drop (length (stored ?r uid cid @ ms) - nat n) (stored ?r uid cid @ ms))"
    by blast
  have st: "stored r1 uid cid = (if ms = [] then ?ys else drop (length (?ys @ ms) - nat n) (?ys @ ms))"
    using st1 by (simp only: st0)
  have "drop (length (?ys @ ms) - nat n) (?ys @ ms) =
      drop (length ((?xs @ [m]) @ ms) - nat n) ((?xs @ [m]) @ ms)"
    using drop_last_append [of "?xs @ [m]" "nat n" ms] by simp
  with st have "stored r1 uid cid = drop (length (?xs @ m # ms) - nat n) (?xs @ m # ms)"
    by (cases "ms = []") simp_all
  with step run ok1 show ?case by simp
qed

text \<open>
  C1. For a context window size of at least 1: on a chat whose key can take a push, every
  non-empty sequence of \<open>append_message\<close> calls, with any roles and contents, completes, and
  the history read after it has at most \<open>MAX_CONTEXT\<close> messages. Every prefix of a sequence
  of calls is such a sequence, so the bound holds after each call.
\<close>

theorem append_message_bounded:
  assumes "0 < MAX_CONTEXT" and "history_ok r uid cid" and "ms \<noteq> []"
  shows "\<exists>h. history_after MAX_CONTEXT r uid cid ms = Inr h \<and> int (length h) \<le> MAX_CONTEXT"
proof -
  from append_messages_run [OF assms(1,2), of ms] assms(3) obtain r1 where
    run: "append_messages MAX_CONTEXT r uid cid ms = Inr r1" and ok: "history_ok r1 uid cid" and
    st: "stored r1 uid cid =
       drop (length (stored r uid cid @ ms) - nat MAX_CONTEXT) (stored r uid cid @ ms)"
    by auto
  have "int (length (stored r1 uid cid)) \<le> MAX_CONTEXT"
    using assms(1) unfolding st by simp
  with run ok show ?thesis
    by (simp add: history_after_def get_chat_history_stored)
qed

theorem append_message_bounded_witness:
  "(0::int) < 2 \<and> history_ok Map.empty ''u1'' ''c1'' \<and>
   [\<lparr>m_role = ''user'', m_content = ''a'', m_ts = 1\<rparr>,
    \<lparr>m_role = ''assistant'', m_content = ''b'', m_ts = 2\<rparr>,
    \<lparr>m_role = ''user'', m_content = ''c'', m_ts = 3\<rparr>] \<noteq> [] \<and>
   (\<exists>h. history_after 2 Map.empty ''u1'' ''c1''
      [\<lparr>m_role = ''user'', m_content = ''a'', m_ts = 1\<rparr>,
       \<lparr>m_role = ''assistant'', m_content = ''b'', m_ts = 2\<rparr>,
       \<lparr>m_role = ''user'', m_content = ''c'', m_ts = 3\<rparr>] = Inr h \<and> int (length h) \<le> 2)"
  using append_message_bounded [of 2 Map.empty "''u1''" "''c1''"
      "[\<lparr>m_role = ''user'', m_content = ''a'', m_ts = 1\<rparr>,
        \<lparr>m_role = ''assistant'', m_content = ''b'', m_ts = 2\<rparr>,
        \<lparr>m_role = ''user'', m_content = ''c'', m_ts = 3\<rparr>]"]
  by (simp add: history_ok_def)

text \<open>
  With a window size of 0 the trim is \<open>LTRIM key 0 -1\<close>, which keeps the whole list: one
  append to an empty chat leaves one message, more than the window size.
\<close>

theorem append_message_unbounded_at_zero:
  "history_after 0 Map.empty ''u1'' ''c1'' [\<lparr>m_role = ''user'', m_content = ''hello'', m_ts = 1\<rparr>]
     = Inr [\<lparr>m_role = ''user'', m_content = ''hello'', m_ts = 1\<rparr>] \<and>
   \<not> int (length [\<lparr>m_role = ''user'', m_content = ''hello'', m_ts = 1\<rparr>]) \<le> 0"
  by (simp add: history_after_def append_message_def get_chat_history_def r_rpush_def
      r_ltrim_def r_lrange_def list_range_def chat_history_key_def)

text \<open>
  C2. For a context window size of at least 1: after appending the messages \<open>ms\<close> in order
  to a chat that holds nothing, the history is the last \<open>MAX_CONTEXT\<close> of them in their
  order, oldest first: exactly \<open>MAX_CONTEXT\<close> messages when more were appended, and all
  of them otherwise.
\<close>

theorem history_fifo:
  assumes "0 < MAX_CONTEXT" and "r (chat_history_key uid cid) = None"
  shows "history_after MAX_CONTEXT r uid cid ms = Inr (drop (length ms - nat MAX_CONTEXT) ms) \<and>
     (MAX_CONTEXT < int (length ms) \<longrightarrow>
        int (length (drop (length ms - nat MAX_CONTEXT) ms)) = MAX_CONTEXT) \<and>
     (int (length ms) \<le> MAX_CONTEXT \<longrightarrow> drop (length ms - nat MAX_CONTEXT) ms = ms)"
proof -
  have ok: "history_ok r uid cid" and emp: "stored r uid cid = []"
    using assms(2) by (simp_all add: history_ok_def stored_def)
  from append_messages_run [OF assms(1) ok, of ms] obtain r1 where
    run: "append_messages MAX_CONTEXT r uid cid ms = Inr r1" and ok1: "history_ok r1 uid cid" and
    st: "stored r1 uid cid = drop (length ms - nat MAX_CONTEXT) ms"
    by (auto simp: emp split: if_splits)
  have "history_after MAX_CONTEXT r uid cid ms = Inr (drop (length ms - nat MAX_CONTEXT) ms)"
    using run ok1 st by (simp add: history_after_def get_chat_history_stored)
  moreover have "MAX_CONTEXT < int (length ms) \<longrightarrow>
      int (length (drop (length ms - nat MAX_CONTEXT) ms)) = MAX_CONTEXT"
    using assms(1) by auto
  moreover have "int (length ms) \<le> MAX_CONTEXT \<longrightarrow> drop (length ms - nat MAX_CONTEXT) ms = ms"
    by auto
  ultimately show ?thesis by blast
qed

theorem history_fifo_witness:
  "(0::int) < 2 \<and> Map.empty (chat_history_key ''u1'' ''c1'') = (None :: rvalue option) \<and>
   history_after 2 Map.empty ''u1'' ''c1''
      [\<lparr>m_role = ''user'', m_content = ''a'', m_ts = 1\<rparr>,
       \<lparr>m_role = ''assistant'', m_content = ''b'', m_ts = 2\<rparr>,
       \<lparr>m_role = ''user'', m_content = ''c'', m_ts = 3\<rparr>]
     = Inr [\<lparr>m_role = ''assistant'', m_content = ''b'', m_ts = 2\<rparr>,
            \<lparr>m_role = ''user'', m_content = ''c'', m_ts = 3\<rparr>]"
  using history_fifo [of 2 Map.empty "''u1''" "''c1''"
      "[\<lparr>m_role = ''user'', m_content = ''a'', m_ts = 1\<rparr>,
        \<lparr>m_role = ''assistant'', m_content = ''b'', m_ts = 2\<rparr>,
        \<lparr>m_role = ''user'', m_content = ''c'', m_ts = 3\<rparr>]"]
  by simp

text \<open>
  With a window size of 0, two appends to an empty chat leave both messages, where the last
  0 of them would be none.
\<close>

theorem history_fifo_fails_at_zero:
  "(0::int) < int (length [\<lparr>m_role = ''user'', m_content = ''a'', m_ts = 1\<rparr>,
                           \<lparr>m_role = ''assistant'', m_content = ''b'', m_ts = 2\<rparr>]) \<and>
   history_after 0 Map.empty ''u1'' ''c1''
      [\<lparr>m_role = ''user'', m_content = ''a'', m_ts = 1\<rparr>,
       \<lparr>m_role = ''assistant'', m_content = ''b'', m_ts = 2\<rparr>]
     = Inr [\<lparr>m_role = ''user'', m_content = ''a'', m_ts = 1\<rparr>,
            \<lparr>m_role = ''assistant'', m_content = ''b'', m_ts = 2\<rparr>] \<and>
   history_after 0 Map.empty ''u1'' ''c1''
      [\<lparr>m_role = ''user'', m_content = ''a'', m_ts = 1\<rparr>,
       \<lparr>m_role = ''assistant'', m_content = ''b'', m_ts = 2\<rparr>]
     \<noteq> Inr (drop (length [\<lparr>m_role = ''user'', m_content = ''a'', m_ts = 1\<rparr>,
                           \<lparr>m_role = ''assistant'', m_content = ''b'', m_ts = 2\<rparr>] - nat 0)
              [\<lparr>m_role = ''user'', m_content = ''a'', m_ts = 1\<rparr>,
               \<lparr>m_role = ''assistant'', m_content = ''b'', m_ts = 2\<rparr>])"
  by (simp add: history_after_def append_message_def get_chat_history_def r_rpush_def
      r_ltrim_def r_lrange_def list_range_def chat_history_key_def)

section \<open>Language detection\<close>

lemma detect_lang_safe_cases:
  "detect_lang_safe detect text =
     (if startswith (stat_code detect text) ''hi'' \<or> 2 \<le> hindi_hits text \<or>
         (1 \<le> hindi_hits text \<and> 1 \<le> eng_hits text)
      then ''hi'' else ''en'')"
  by (auto simp: detect_lang_safe_def Let_def)





text \<open>
  C4. \<open>detect_lang_safe\<close> is a function of its text and of what the statistical detector
  gives on that text: it returns one of \<open>hi\<close> and \<open>en\<close> on every input, whether the
  detector returns or raises; where the detector raises, the statistical code counts as
  \<open>en\<close> and the keyword heuristic alone decides; and two detectors that agree on the text
  give the same result. It takes no store and returns none.
\<close>

theorem detect_lang_safe_total:
  "(detect_lang_safe detect text = ''hi'' \<or> detect_lang_safe detect text = ''en'') \<and>
   (detect text = None \<longrightarrow>
      stat_code detect text = ''en'' \<and>
      detect_lang_safe detect text =
        (if 2 \<le> hindi_hits text \<or> (1 \<le> hindi_hits text \<and> 1 \<le> eng_hits text)
         then ''hi'' else ''en'')) \<and>
   (detect text = detect1 text \<longrightarrow>
      detect_lang_safe detect text = detect_lang_safe detect1 text)"
  by (simp add: detect_lang_safe_cases stat_code_def startswith_def)

theorem detect_lang_safe_total_witness:
  "(\<lambda>t. None :: string option) ''tum ok'' = None \<and>
   (\<lambda>t. None :: string option) ''tum ok'' =
     (\<lambda>t. if t = ''tum ok'' then None else Some ''fr'') ''tum ok'' \<and>
   stat_code (\<lambda>t. None) ''tum ok'' = ''en'' \<and>
   detect_lang_safe (\<lambda>t. None) ''tum ok'' = ''hi'' \<and>
   detect_lang_safe (\<lambda>t. if t = ''tum ok'' then None else Some ''fr'') ''tum ok'' = ''hi''"
proof -
  have h: "hindi_hits ''tum ok'' = 1"
    by (simp add: hindi_hits_def lower_def lower_char_def is_word_char_def hindi_keywords_def)
  have e: "eng_hits ''tum ok'' = 1"
    by (simp add: eng_hits_def lower_def lower_char_def is_word_char_def english_words_def)
  show ?thesis
    using detect_lang_safe_total [of "\<lambda>t. None" "''tum ok''"
        "\<lambda>t. if t = ''tum ok'' then None else Some ''fr''"] h e
    by auto
qed

section \<open>Chat lists\<close>

lemma list_user_chats_upd:
  "list_user_chats (r_set r (user_chats_key uid) (RChats cs)) uid = Inr cs"
  by (simp add: list_user_chats_def r_get_def r_set_def loads_chats_def)

lemma list_user_chats_Inr:
  assumes "list_user_chats r uid = Inr chats"
  shows "\<exists>v. r_get r (user_chats_key uid) = Inr v \<and> loads_chats v = Inr chats"
  using assms by (cases "r_get r (user_chats_key uid)") (simp_all add: list_user_chats_def)

lemma list_user_chats_fresh: "r (user_chats_key uid) = None \<Longrightarrow> list_user_chats r uid = Inr []"
  by (simp add: list_user_chats_def r_get_def loads_chats_def)

text \<open>
  C9. Where the user's chat list reads as \<open>chats\<close> and the text of the fresh UUID has at
  least 8 characters (the canonical text has 36), \<open>create_chat_for_user\<close> returns the first
  8 characters of that text, and afterwards \<open>list_user_chats\<close> returns \<open>chats\<close> followed by
  one new record: that identifier, the given title or, where none or an empty one is given,
  \<open>Chat\<close> and the number of chats before the call plus 1, and the clock reading. So the list
  is in creation order. A user with no chat list key has the empty list.
\<close>

theorem create_chat_appends:
  assumes "8 \<le> length uuid4" and "list_user_chats r uid = Inr chats"
  shows "length (take 8 uuid4) = 8 \<and>
     (\<exists>r1. create_chat_for_user r uid title uuid4 now = Inr (take 8 uuid4, r1) \<and>
           list_user_chats r1 uid =
             Inr (chats @ [\<lparr>c_chat_id = take 8 uuid4,
                            c_title = (case title of
                                         None \<Rightarrow> ''Chat '' @ str_nat (length chats + 1)
                                       | Some t \<Rightarrow> if t \<noteq> [] then t
                                                  else ''Chat '' @ str_nat (length chats + 1)),
                            c_created = now\<rparr>])) \<and>
     (r (user_chats_key uid) = None \<longrightarrow> chats = [])"
proof -
  from list_user_chats_Inr [OF assms(2)] obtain v where
    g: "r_get r (user_chats_key uid) = Inr v" and l: "loads_chats v = Inr chats" by blast
  let ?t = "case title of None \<Rightarrow> ''Chat '' @ str_nat (length chats + 1)
              | Some t \<Rightarrow> if t \<noteq> [] then t else ''Chat '' @ str_nat (length chats + 1)"
  let ?cs = "chats @ [\<lparr>c_chat_id = take 8 uuid4, c_title = ?t, c_created = now\<rparr>]"
  have "create_chat_for_user r uid title uuid4 now =
      Inr (take 8 uuid4, r_set r (user_chats_key uid) (RChats ?cs))"
    by (cases title) (simp_all add: create_chat_for_user_def g l Let_def)
  moreover have "list_user_chats (r_set r (user_chats_key uid) (RChats ?cs)) uid = Inr ?cs"
    by (rule list_user_chats_upd)
  moreover have "length (take 8 uuid4) = 8" using assms(1) by simp
  moreover have "r (user_chats_key uid) = None \<longrightarrow> chats = []"
    using assms(2) list_user_chats_fresh [of r uid] by auto
  ultimately show ?thesis by blast
qed

theorem create_chat_appends_witness:
  "8 \<le> length ''3f2b8c1e-9a4d-4e6f-8b7a-1c2d3e4f5a6b'' \<and>
   list_user_chats Map.empty ''u1'' = Inr [] \<and>
   (\<exists>r1. create_chat_for_user Map.empty ''u1'' None
            ''3f2b8c1e-9a4d-4e6f-8b7a-1c2d3e4f5a6b'' 1700000000 = Inr (''3f2b8c1e'', r1) \<and>
          list_user_chats r1 ''u1'' =
            Inr [\<lparr>c_chat_id = ''3f2b8c1e'', c_title = ''Chat 1'', c_created = 1700000000\<rparr>])"
proof -
  have a: "8 \<le> length ''3f2b8c1e-9a4d-4e6f-8b7a-1c2d3e4f5a6b''" by simp
  have b: "list_user_chats Map.empty ''u1'' = Inr []" by (rule list_user_chats_fresh) simp
  from create_chat_appends [OF a b, of None 1700000000] a b show ?thesis
    by (simp add: str_nat.simps)
qed

section \<open>Rejected requests\<close>

lemma strip_Nil_iff: "strip s = [] \<longleftrightarrow> list_all is_space s"
proof -
  have "dropWhile is_space (rev (dropWhile is_space s)) = [] \<longleftrightarrow> dropWhile is_space s = []"
  proof
    assume a: "dropWhile is_space (rev (dropWhile is_space s)) = []"
    show "dropWhile is_space s = []"
    proof (rule ccontr)
      assume ne: "dropWhile is_space s \<noteq> []"
      then have "\<not> is_space (hd (dropWhile is_space s))" by (rule hd_dropWhile)
      moreover have "hd (dropWhile is_space s) \<in> set (rev (dropWhile is_space s))"
        using ne by simp
      ultimately show False using a by (auto simp: dropWhile_eq_Nil_conv)
    qed
  next
    assume "dropWhile is_space s = []"
    then show "dropWhile is_space (rev (dropWhile is_space s)) = []"
      by (simp only: rev.simps dropWhile.simps)
  qed
  then have "strip s = [] \<longleftrightarrow> dropWhile is_space s = []"
    by (simp add: strip_def)
  also have "\<dots> \<longleftrightarrow> list_all is_space s"
    by (simp add: dropWhile_eq_Nil_conv list_all_iff)
  finally show ?thesis .
qed

text \<open>
  C8. A request whose message is missing, empty or made of white space only is rejected
  with the HTTP error 400, and the store after the call is the store before it: no message
  is appended, no chat is created and no language is written.
\<close>

theorem api_send_rejects_empty:
  assumes "d_message data = None \<or> (\<exists>m. d_message data = Some m \<and> list_all is_space m)"
  shows "api_send MAX_CONTEXT ev r data = (HTTPError (HTTPException 400 ''message required''), r)"
proof -
  have "strip (case d_message data of None \<Rightarrow> [] | Some m \<Rightarrow> m) = []"
    using assms by (auto simp: strip_Nil_iff)
  then show ?thesis
    by (simp add: api_send_def api_send_prepare_def Let_def)
qed

theorem api_send_rejects_empty_witness:
  "list_all is_space [CHR 0x20, CHR 0x0A, CHR 0x09] \<and>
   api_send 20
     \<lparr>e_uuid4 = ''3f2b8c1e-9a4d-4e6f-8b7a-1c2d3e4f5a6b'', e_time_chat = 1, e_time_user = 2,
      e_time_reply = 3, e_detect = (\<lambda>t. None), e_generate = (\<lambda>p. Raises ''down'')\<rparr>
     Map.empty
     \<lparr>d_uid = Some ''u1'', d_chat_id = None, d_message = Some [CHR 0x20, CHR 0x0A, CHR 0x09]\<rparr>
   = (HTTPError (HTTPException 400 ''message required''), Map.empty)"
proof -
  have a: "list_all is_space [CHR 0x20, CHR 0x0A, CHR 0x09]" by (simp add: is_space_def)
  show ?thesis
    using a api_send_rejects_empty [of
        "\<lparr>d_uid = Some ''u1'', d_chat_id = None, d_message = Some [CHR 0x20, CHR 0x0A, CHR 0x09]\<rparr>"
        20
        "\<lparr>e_uuid4 = ''3f2b8c1e-9a4d-4e6f-8b7a-1c2d3e4f5a6b'', e_time_chat = 1, e_time_user = 2,
          e_time_reply = 3, e_detect = (\<lambda>t. None), e_generate = (\<lambda>p. Raises ''down'')\<rparr>"
        Map.empty]
    by simp
qed

section \<open>White space normalisation\<close>

lemma is_space_space: "is_space (CHR 0x20)"
  by (simp add: is_space_def)

lemma rstrip_append:
  "rev (dropWhile P (rev (a @ b))) =
     (if rev (dropWhile P (rev b)) = [] then rev (dropWhile P (rev a))
      else a @ rev (dropWhile P (rev b)))"
  by (auto simp: dropWhile_append dropWhile_eq_Nil_conv)

lemma rstrip_id:
  assumes "\<forall>x\<in>set cur. \<not> P x"
  shows "rev (dropWhile P (rev cur)) = cur"
proof (cases "rev cur")
  case Nil
  then show ?thesis by simp
next
  case (Cons y ys)
  then have "y \<in> set cur" by (metis list.set_intros(1) set_rev)
  with assms have "\<not> P y" by blast
  with Cons have "dropWhile P (rev cur) = rev cur" by simp
  then show ?thesis by simp
qed

lemma lstrip_sub_ws_run_True:
  "dropWhile is_space (sub_ws_run True cs) = sub_ws_run True cs"
  by (induction cs) simp_all

lemma ws_words_nonempty: "[] \<notin> set (ws_words cur s)"
  by (induction s arbitrary: cur) auto

lemma join_Nil_iff: "[] \<notin> set ws \<Longrightarrow> join sep ws = [] \<longleftrightarrow> ws = []"
  by (induction sep ws rule: join.induct) auto

lemma join_Cons: "join sep (w # ws) = (if ws = [] then w else w @ sep @ join sep ws)"
  by (cases ws) simp_all

lemma normalize_aux:
  "(\<forall>cur. cur \<noteq> [] \<and> (\<forall>x\<in>set cur. \<not> is_space x) \<longrightarrow>
       rev (dropWhile is_space (rev (cur @ sub_ws_run False s))) = join [CHR 0x20] (ws_words cur s)) \<and>
   (\<forall>b. rev (dropWhile is_space (rev (dropWhile is_space (sub_ws_run b s)))) =
       join [CHR 0x20] (ws_words [] s))"
proof (induction s)
  case Nil
  then show ?case by (simp add: rstrip_id)
next
  case (Cons c cs)
  from Cons.IH have
    ih1: "\<And>cur. cur \<noteq> [] \<Longrightarrow> (\<forall>x\<in>set cur. \<not> is_space x) \<Longrightarrow>
       rev (dropWhile is_space (rev (cur @ sub_ws_run False cs))) = join [CHR 0x20] (ws_words cur cs)"
    and ih2: "\<And>b. rev (dropWhile is_space (rev (dropWhile is_space (sub_ws_run b cs)))) =
       join [CHR 0x20] (ws_words [] cs)"
    by blast+
  show ?case
  proof (cases "is_space c")
    case True
    have x: "rev (dropWhile is_space (rev (sub_ws_run True cs))) = join [CHR 0x20] (ws_words [] cs)"
      using ih2 [of True] by (simp add: lstrip_sub_ws_run_True)
    have a: "rev (dropWhile is_space (rev (cur @ sub_ws_run False (c # cs)))) =
        join [CHR 0x20] (ws_words cur (c # cs))"
      if "cur \<noteq> []" and "\<forall>x\<in>set cur. \<not> is_space x" for cur
    proof -
      have "rev (dropWhile is_space (rev (cur @ [CHR 0x20]))) = cur"
        using rstrip_id [OF that(2)] by (simp add: is_space_space)
      moreover have "cur @ sub_ws_run False (c # cs) = (cur @ [CHR 0x20]) @ sub_ws_run True cs"
        using True by simp
      ultimately have "rev (dropWhile is_space (rev (cur @ sub_ws_run False (c # cs)))) =
          (if join [CHR 0x20] (ws_words [] cs) = [] then cur
           else (cur @ [CHR 0x20]) @ join [CHR 0x20] (ws_words [] cs))"
        by (simp only: rstrip_append [of is_space "cur @ [CHR 0x20]"] x)
      also have "\<dots> = join [CHR 0x20] (cur # ws_words [] cs)"
        by (simp add: join_Cons join_Nil_iff [OF ws_words_nonempty])
      also have "\<dots> = join [CHR 0x20] (ws_words cur (c # cs))"
        using True that(1) by simp
      finally show ?thesis .
    qed
    have b: "rev (dropWhile is_space (rev (dropWhile is_space (sub_ws_run b (c # cs))))) =
        join [CHR 0x20] (ws_words [] (c # cs))" for b
      using True ih2 [of True] by (simp add: is_space_space lstrip_sub_ws_run_True)
    from a b show ?thesis by blast
  next
    case False
    have a: "rev (dropWhile is_space (rev (cur @ sub_ws_run False (c # cs)))) =
        join [CHR 0x20] (ws_words cur (c # cs))"
      if "cur \<noteq> []" and "\<forall>x\<in>set cur. \<not> is_space x" for cur
      using ih1 [of "cur @ [c]"] that False by simp
    have b: "rev (dropWhile is_space (rev (dropWhile is_space (sub_ws_run b (c # cs))))) =
        join [CHR 0x20] (ws_words [] (c # cs))" for b
      using ih1 [of "[c]"] False by simp
    from a b show ?thesis by blast
  qed
qed

lemma strip_sub_ws: "strip (sub_ws s) = normalized s"
  using normalize_aux [of s] by (simp add: strip_def sub_ws_def normalized_def)

section \<open>The reply and the store\<close>

lemma history_key_not_lang: "chat_history_key uid cid \<noteq> user_lang_key u"
  by (simp add: chat_history_key_def user_lang_key_def)

lemma history_key_not_chats: "chat_history_key uid cid \<noteq> user_chats_key u"
  by (simp add: chat_history_key_def user_chats_key_def)

lemma lang_key_not_chats: "user_lang_key uid \<noteq> user_chats_key u"
proof
  assume "user_lang_key uid = user_chats_key u"
  then have "rev (uid @ '':lang'') = rev (u @ '':chats'')"
    by (simp add: user_lang_key_def user_chats_key_def)
  then show False by simp
qed

lemma append_message_any:
  assumes "history_ok r uid cid"
  shows "\<exists>r1. append_message n r uid cid role content now = Inr r1 \<and> history_ok r1 uid cid \<and>
     (\<forall>k. k \<noteq> chat_history_key uid cid \<longrightarrow> r1 k = r k)"
  using assms
  by (auto simp: history_ok_def append_message_def r_rpush_def r_ltrim_def Let_def
      split: option.splits rvalue.splits)

lemma list_range_nonneg_last:
  assumes "0 \<le> n"
  shows "list_range (xs @ [x]) (- n) (- 1) \<noteq> [] \<and> last (list_range (xs @ [x]) (- n) (- 1)) = x"
proof (cases "n = 0")
  case True
  then show ?thesis by (simp add: list_range_all)
next
  case False
  with assms have "0 < n" by simp
  then show ?thesis by (simp add: list_range_last)
qed

lemma append_message_last:
  assumes "0 \<le> n" and "history_ok r uid cid"
    and "append_message n r uid cid role content now = Inr r1"
  shows "history_ok r1 uid cid \<and> stored r1 uid cid \<noteq> [] \<and>
     last (stored r1 uid cid) = \<lparr>m_role = role, m_content = content, m_ts = now\<rparr>"
proof -
  let ?m = "\<lparr>m_role = role, m_content = content, m_ts = now\<rparr>"
  have ne: "list_range (xs @ [?m]) (- n) (- 1) \<noteq> []"
    and la: "last (list_range (xs @ [?m]) (- n) (- 1)) = ?m" for xs
    using list_range_nonneg_last [OF assms(1), of xs ?m] by simp_all
  have ne0: "list_range [?m] (- n) (- 1) \<noteq> []"
    and la0: "last (list_range [?m] (- n) (- 1)) = ?m"
    using ne [of "[]"] la [of "[]"] by simp_all
  show ?thesis
    using assms(2,3) ne la ne0 la0
    by (auto simp: history_ok_def append_message_def r_rpush_def r_ltrim_def stored_def Let_def
        split: option.splits rvalue.splits if_splits)
qed

lemma get_chat_history_Inr: "get_chat_history r uid cid = Inr h \<Longrightarrow> history_ok r uid cid"
  by (auto simp: get_chat_history_def r_lrange_def history_ok_def split: option.splits rvalue.splits)

lemma stream_loop_eq:
  "stream_loop chunks collected yielded =
     (collected @ concat (map piece_of chunks), yielded @ map piece_of chunks)"
  by (induction chunks arbitrary: collected yielded) (simp_all add: Let_def)

lemma event_stream_eq:
  assumes "history_ok r uid cid"
  shows "fst (event_stream n r uid cid now chunks err) =
       StreamingResponse (map piece_of chunks @ diagnostic err) None \<and>
     (normalized (concat (map piece_of chunks)) = [] \<longrightarrow>
        snd (event_stream n r uid cid now chunks err) = r) \<and>
     (normalized (concat (map piece_of chunks)) \<noteq> [] \<longrightarrow>
        append_message n r uid cid ''assistant'' (normalized (concat (map piece_of chunks))) now =
          Inr (snd (event_stream n r uid cid now chunks err)))"
proof -
  let ?final = "normalized (concat (map piece_of chunks))"
  from append_message_any [OF assms, of n "''assistant''" ?final now] obtain r1 where
    a: "append_message n r uid cid ''assistant'' ?final now = Inr r1" by blast
  have y: "(case err of None \<Rightarrow> map piece_of chunks
            | Some e \<Rightarrow> map piece_of chunks @ [nl @ ''[Error: '' @ e @ '']'']) =
        map piece_of chunks @ diagnostic err"
    by (cases err) (simp_all add: diagnostic_def)
  show ?thesis
    by (simp add: event_stream_def stream_loop_eq strip_sub_ws Let_def a y)
qed

lemma prepare_history_ok:
  assumes "api_send_prepare n ev r data = Inr (uid, cid, prompt, r3)"
  shows "history_ok r3 uid cid"
  using assms
  by (auto simp: api_send_prepare_def Let_def
      split: if_splits sum.splits prod.splits intro: get_chat_history_Inr)

lemma example_prepare:
  "api_send_prepare 20 (example_env outcome) Map.empty example_request =
     Inr (''u1'', ''c1'',
          build_prompt [\<lparr>m_role = ''user'', m_content = ''hello'', m_ts = 2\<rparr>] ''en'' ''hello'',
          [chat_history_key ''u1'' ''c1'' \<mapsto>
             RList [\<lparr>m_role = ''user'', m_content = ''hello'', m_ts = 2\<rparr>],
           user_lang_key ''u1'' \<mapsto> RText ''en''])"
proof -
  have s: "strip ''hello'' = ''hello''" by (simp add: strip_def is_space_def)
  have d: "detect_lang_safe (\<lambda>t. None) ''hello'' = ''en''"
    by (simp add: detect_lang_safe_cases stat_code_def startswith_def hindi_hits_def
        lower_def lower_char_def is_word_char_def hindi_keywords_def)
  have a: "append_message 20 Map.empty ''u1'' ''c1'' ''user'' ''hello'' 2 =
      Inr [chat_history_key ''u1'' ''c1'' \<mapsto>
             RList [\<lparr>m_role = ''user'', m_content = ''hello'', m_ts = 2\<rparr>]]"
    by (simp add: append_message_def r_rpush_def r_ltrim_def list_range_def Let_def)
  have g: "get_chat_history
      [chat_history_key ''u1'' ''c1'' \<mapsto>
             RList [\<lparr>m_role = ''user'', m_content = ''hello'', m_ts = 2\<rparr>],
           user_lang_key ''u1'' \<mapsto> RText ''en''] ''u1'' ''c1'' =
      Inr [\<lparr>m_role = ''user'', m_content = ''hello'', m_ts = 2\<rparr>]"
    by (simp add: get_chat_history_def r_lrange_def list_range_all history_key_not_lang)
  show ?thesis
    by (simp add: api_send_prepare_def example_env_def example_request_def resolve_chat_def
        s d a g r_set_def read_user_lang_def r_get_def Let_def)
qed

lemma api_send_Stream:
  assumes "api_send_prepare MAX_CONTEXT ev r data = Inr (uid, cid, prompt, r3)"
    and "e_generate ev prompt = Stream chunks err"
  shows "fst (api_send MAX_CONTEXT ev r data) =
       StreamingResponse (map piece_of chunks @ diagnostic err) None \<and>
     (normalized (concat (map piece_of chunks)) = [] \<longrightarrow>
        snd (api_send MAX_CONTEXT ev r data) = r3) \<and>
     (normalized (concat (map piece_of chunks)) \<noteq> [] \<longrightarrow>
        append_message MAX_CONTEXT r3 uid cid ''assistant''
            (normalized (concat (map piece_of chunks))) (e_time_reply ev) =
          Inr (snd (api_send MAX_CONTEXT ev r data)))"
proof -
  have "api_send MAX_CONTEXT ev r data =
      event_stream MAX_CONTEXT r3 uid cid (e_time_reply ev) chunks err"
    by (simp add: api_send_def assms)
  with event_stream_eq [OF prepare_history_ok [OF assms(1)], of MAX_CONTEXT "e_time_reply ev" chunks err]
  show ?thesis by simp
qed

text \<open>
  C5. When the provider returns a stream, whether the stream ends normally or raises after
  some chunks: the client receives the piece of every chunk in order (followed by the
  diagnostic fragment after a failure); the pieces are concatenated and normalised, every
  run of white space becoming one space and the white space at both ends being removed; if
  the normalised text is empty the store stays as it was before the reply, and otherwise
  the store is the result of exactly one \<open>append_message\<close> with role \<open>assistant\<close> and the
  normalised text. In the scenario the fragments \<open>Hi \<close>, \<open>there\<close> with a newline and
  \<open> friend\<close> are delivered in order and \<open>Hi there friend\<close> is committed.
\<close>

theorem stream_commit:
  assumes "api_send_prepare MAX_CONTEXT ev r data = Inr (uid, cid, prompt, r3)"
    and "e_generate ev prompt = Stream chunks err"
  shows "fst (api_send MAX_CONTEXT ev r data) =
       StreamingResponse (map piece_of chunks @ diagnostic err) None \<and>
     (normalized (concat (map piece_of chunks)) = [] \<longrightarrow>
        snd (api_send MAX_CONTEXT ev r data) = r3) \<and>
     (normalized (concat (map piece_of chunks)) \<noteq> [] \<longrightarrow>
        append_message MAX_CONTEXT r3 uid cid ''assistant''
            (normalized (concat (map piece_of chunks))) (e_time_reply ev) =
          Inr (snd (api_send MAX_CONTEXT ev r data)))"
proof -
  have ok: "history_ok r3 uid cid"
    using assms(1) by (rule prepare_history_ok)
  have "api_send MAX_CONTEXT ev r data =
      event_stream MAX_CONTEXT r3 uid cid (e_time_reply ev) chunks err"
    by (simp add: api_send_def assms)
  with event_stream_eq [OF ok, of MAX_CONTEXT "e_time_reply ev" chunks err]
  show ?thesis by simp
qed

theorem stream_commit_witness:
  "api_send_prepare 20
      (example_env (Stream [Chunk (Some ''Hi '') [], Chunk (Some (''there'' @ nl)) [],
                            Chunk (Some '' friend'') []] None))
      Map.empty example_request =
     Inr (''u1'', ''c1'',
          build_prompt [\<lparr>m_role = ''user'', m_content = ''hello'', m_ts = 2\<rparr>] ''en'' ''hello'',
          [chat_history_key ''u1'' ''c1'' \<mapsto>
             RList [\<lparr>m_role = ''user'', m_content = ''hello'', m_ts = 2\<rparr>],
           user_lang_key ''u1'' \<mapsto> RText ''en'']) \<and>
   fst (api_send 20
      (example_env (Stream [Chunk (Some ''Hi '') [], Chunk (Some (''there'' @ nl)) [],
                            Chunk (Some '' friend'') []] None))
      Map.empty example_request) =
     StreamingResponse [''Hi '', ''there'' @ nl, '' friend''] None \<and>
   append_message 20
      [chat_history_key ''u1'' ''c1'' \<mapsto>
             RList [\<lparr>m_role = ''user'', m_content = ''hello'', m_ts = 2\<rparr>],
           user_lang_key ''u1'' \<mapsto> RText ''en'']
      ''u1'' ''c1'' ''assistant'' ''Hi there friend'' 3 =
     Inr (snd (api_send 20
      (example_env (Stream [Chunk (Some ''Hi '') [], Chunk (Some (''there'' @ nl)) [],
                            Chunk (Some '' friend'') []] None))
      Map.empty example_request)) \<and>
   get_chat_history (snd (api_send 20
      (example_env (Stream [Chunk (Some ''Hi '') [], Chunk (Some (''there'' @ nl)) [],
                            Chunk (Some '' friend'') []] None))
      Map.empty example_request)) ''u1'' ''c1'' =
     Inr [\<lparr>m_role = ''user'', m_content = ''hello'', m_ts = 2\<rparr>,
          \<lparr>m_role = ''assistant'', m_content = ''Hi there friend'', m_ts = 3\<rparr>]"
proof -
  let ?out = "Stream [Chunk (Some ''Hi '') [], Chunk (Some (''there'' @ nl)) [],
                            Chunk (Some '' friend'') []] None"
  have g: "e_generate (example_env ?out)
      (build_prompt [\<lparr>m_role = ''user'', m_content = ''hello'', m_ts = 2\<rparr>] ''en'' ''hello'') = ?out"
    by (simp add: example_env_def)
  have t: "e_time_reply (example_env ?out) = 3" by (simp add: example_env_def)
  have p: "map piece_of [Chunk (Some ''Hi '') [], Chunk (Some (''there'' @ nl)) [],
                            Chunk (Some '' friend'') []] = [''Hi '', ''there'' @ nl, '' friend'']"
    by (simp add: piece_of_def)
  have n: "normalized (concat [''Hi '', ''there'' @ nl, '' friend'']) = ''Hi there friend''"
    by (simp add: normalized_def nl_def is_space_def)
  have ne: "''Hi there friend'' \<noteq> []" by simp
  note th = stream_commit [OF example_prepare g, unfolded p n t]
  from th have a: "fst (api_send 20 (example_env ?out) Map.empty example_request) =
      StreamingResponse ([''Hi '', ''there'' @ nl, '' friend''] @ diagnostic None) None"
    by (rule conjunct1)
  from th ne have b: "append_message 20
      [chat_history_key ''u1'' ''c1'' \<mapsto>
             RList [\<lparr>m_role = ''user'', m_content = ''hello'', m_ts = 2\<rparr>],
           user_lang_key ''u1'' \<mapsto> RText ''en'']
      ''u1'' ''c1'' ''assistant'' ''Hi there friend'' 3 =
     Inr (snd (api_send 20 (example_env ?out) Map.empty example_request))"
    by blast
  have d: "diagnostic None = []" by (simp add: diagnostic_def)
  let ?store = "[chat_history_key ''u1'' ''c1'' \<mapsto>
             RList [\<lparr>m_role = ''user'', m_content = ''hello'', m_ts = 2\<rparr>,
                    \<lparr>m_role = ''assistant'', m_content = ''Hi there friend'', m_ts = 3\<rparr>],
           user_lang_key ''u1'' \<mapsto> RText ''en'']"
  have c: "append_message 20
      [chat_history_key ''u1'' ''c1'' \<mapsto>
             RList [\<lparr>m_role = ''user'', m_content = ''hello'', m_ts = 2\<rparr>],
           user_lang_key ''u1'' \<mapsto> RText ''en'']
      ''u1'' ''c1'' ''assistant'' ''Hi there friend'' 3 = Inr ?store"
    by (auto simp: append_message_def r_rpush_def r_ltrim_def list_range_def Let_def
        history_key_not_lang)
  have s: "snd (api_send 20 (example_env ?out) Map.empty example_request) = ?store"
    using b c by simp
  have "get_chat_history ?store ''u1'' ''c1'' =
     Inr [\<lparr>m_role = ''user'', m_content = ''hello'', m_ts = 2\<rparr>,
          \<lparr>m_role = ''assistant'', m_content = ''Hi there friend'', m_ts = 3\<rparr>]"
    by (simp add: get_chat_history_def r_lrange_def list_range_all history_key_not_lang)
  then have "get_chat_history (snd (api_send 20 (example_env ?out) Map.empty example_request))
      ''u1'' ''c1'' =
     Inr [\<lparr>m_role = ''user'', m_content = ''hello'', m_ts = 2\<rparr>,
          \<lparr>m_role = ''assistant'', m_content = ''Hi there friend'', m_ts = 3\<rparr>]"
    by (simp only: s)
  with a b example_prepare [of ?out] show ?thesis
    by (simp only: d append_Nil2 simp_thms)
qed

lemma api_send_Raises:
  assumes "api_send_prepare n ev r data = Inr (uid, cid, prompt, r3)"
    and "e_generate ev prompt = Raises e"
  shows "fst (api_send n ev r data) = StreamingResponse [fallback] None \<and>
     append_message n r3 uid cid ''assistant'' fallback (e_time_reply ev) =
       Inr (snd (api_send n ev r data))"
proof -
  from append_message_any [OF prepare_history_ok [OF assms(1)], of n "''assistant''" fallback
      "e_time_reply ev"]
  obtain r4 where a: "append_message n r3 uid cid ''assistant'' fallback (e_time_reply ev) = Inr r4"
    by blast
  then show ?thesis by (simp add: api_send_def assms)
qed

lemma normalized_fallback: "normalized fallback = fallback"
  by (simp add: normalized_def fallback_def is_space_def)

lemma api_send_final:
  assumes "api_send_prepare n ev r data = Inr (uid, cid, prompt, r3)"
  shows "snd (api_send n ev r data) = r3 \<or>
     (\<exists>content. append_message n r3 uid cid ''assistant'' content (e_time_reply ev) =
        Inr (snd (api_send n ev r data)))"
proof (cases "e_generate ev prompt")
  case (Raises e)
  from api_send_Raises [OF assms Raises] show ?thesis by blast
next
  case (Stream chunks err)
  from api_send_Stream [OF assms Stream] show ?thesis by blast
qed

lemma example_append:
  "append_message 20
      [chat_history_key ''u1'' ''c1'' \<mapsto>
             RList [\<lparr>m_role = ''user'', m_content = ''hello'', m_ts = 2\<rparr>],
           user_lang_key ''u1'' \<mapsto> RText ''en'']
      ''u1'' ''c1'' ''assistant'' content 3 =
     Inr [chat_history_key ''u1'' ''c1'' \<mapsto>
             RList [\<lparr>m_role = ''user'', m_content = ''hello'', m_ts = 2\<rparr>,
                    \<lparr>m_role = ''assistant'', m_content = content, m_ts = 3\<rparr>],
           user_lang_key ''u1'' \<mapsto> RText ''en'']"
  by (auto simp: append_message_def r_rpush_def r_ltrim_def list_range_def Let_def
      history_key_not_lang)

lemma example_history:
  "get_chat_history
     [chat_history_key ''u1'' ''c1'' \<mapsto> RList xs, user_lang_key ''u1'' \<mapsto> RText ''en'']
     ''u1'' ''c1'' = Inr xs"
  by (simp add: get_chat_history_def r_lrange_def list_range_all history_key_not_lang)

lemma example_time_reply: "e_time_reply (example_env outcome) = 3"
  by (simp add: example_env_def)

lemma example_generate: "e_generate (example_env outcome) prompt = outcome"
  by (simp add: example_env_def)

lemma example_after_append:
  assumes "append_message 20
      [chat_history_key ''u1'' ''c1'' \<mapsto>
             RList [\<lparr>m_role = ''user'', m_content = ''hello'', m_ts = 2\<rparr>],
           user_lang_key ''u1'' \<mapsto> RText ''en'']
      ''u1'' ''c1'' ''assistant'' content 3 = Inr rf"
  shows "get_chat_history rf ''u1'' ''c1'' =
      Inr [\<lparr>m_role = ''user'', m_content = ''hello'', m_ts = 2\<rparr>,
           \<lparr>m_role = ''assistant'', m_content = content, m_ts = 3\<rparr>] \<and>
     list_user_chats rf ''u1'' = Inr []"
proof -
  from assms have "rf = [chat_history_key ''u1'' ''c1'' \<mapsto>
             RList [\<lparr>m_role = ''user'', m_content = ''hello'', m_ts = 2\<rparr>,
                    \<lparr>m_role = ''assistant'', m_content = content, m_ts = 3\<rparr>],
           user_lang_key ''u1'' \<mapsto> RText ''en'']"
    by (simp add: example_append)
  then show ?thesis
    by (simp add: example_history list_user_chats_def r_get_def loads_chats_def
        history_key_not_chats [symmetric] lang_key_not_chats [symmetric])
qed

lemma example_prepare_negative:
  "api_send_prepare (- 1) (example_env outcome) Map.empty example_request =
     Inr (''u1'', ''c1'', build_prompt [] ''en'' ''hello'', [user_lang_key ''u1'' \<mapsto> RText ''en''])"
proof -
  have s: "strip ''hello'' = ''hello''" by (simp add: strip_def is_space_def)
  have d: "detect_lang_safe (\<lambda>t. None) ''hello'' = ''en''"
    by (simp add: detect_lang_safe_cases stat_code_def startswith_def hindi_hits_def
        lower_def lower_char_def is_word_char_def hindi_keywords_def)
  have a: "append_message (- 1) Map.empty ''u1'' ''c1'' ''user'' ''hello'' 2 = Inr Map.empty"
    by (simp add: append_message_def r_rpush_def r_ltrim_def list_range_def Let_def)
  have g: "get_chat_history [user_lang_key ''u1'' \<mapsto> RText ''en''] ''u1'' ''c1'' = Inr []"
    by (simp add: get_chat_history_def r_lrange_def history_key_not_lang)
  show ?thesis
    by (simp add: api_send_prepare_def example_env_def example_request_def resolve_chat_def
        s d a g r_set_def read_user_lang_def r_get_def Let_def)
qed

lemma example_append_negative:
  "append_message (- 1) [user_lang_key ''u1'' \<mapsto> RText ''en''] ''u1'' ''c1'' role content now =
     Inr [user_lang_key ''u1'' \<mapsto> RText ''en'']"
proof -
  have "([user_lang_key ''u1'' \<mapsto> RText ''en''])(chat_history_key ''u1'' ''c1'' := None) =
      [user_lang_key ''u1'' \<mapsto> RText ''en'']"
    by (rule ext) (simp add: history_key_not_lang)
  then show ?thesis
    by (simp add: append_message_def r_rpush_def r_ltrim_def list_range_def Let_def
        history_key_not_lang)
qed

text \<open>
  C7. When the call of the provider raises before any stream exists, the response delivers
  exactly one fragment, the fallback text, and the store is the result of one
  \<open>append_message\<close> with role \<open>assistant\<close> and that text; where the window size is not
  negative, the history read afterwards ends with that assistant message.
\<close>

theorem fallback_committed:
  assumes "api_send_prepare MAX_CONTEXT ev r data = Inr (uid, cid, prompt, r3)"
    and "e_generate ev prompt = Raises e"
  shows "fst (api_send MAX_CONTEXT ev r data) = StreamingResponse [fallback] None \<and>
     append_message MAX_CONTEXT r3 uid cid ''assistant'' fallback (e_time_reply ev) =
       Inr (snd (api_send MAX_CONTEXT ev r data)) \<and>
     (0 \<le> MAX_CONTEXT \<longrightarrow>
        (\<exists>h. get_chat_history (snd (api_send MAX_CONTEXT ev r data)) uid cid = Inr h \<and> h \<noteq> [] \<and>
             last h = \<lparr>m_role = ''assistant'', m_content = fallback, m_ts = e_time_reply ev\<rparr>))"
proof -
  have ok: "history_ok r3 uid cid" using assms(1) by (rule prepare_history_ok)
  note a = api_send_Raises [OF assms(1,2)]
  then have b: "append_message MAX_CONTEXT r3 uid cid ''assistant'' fallback (e_time_reply ev) =
       Inr (snd (api_send MAX_CONTEXT ev r data))" by (rule conjunct2)
  have "\<exists>h. get_chat_history (snd (api_send MAX_CONTEXT ev r data)) uid cid = Inr h \<and> h \<noteq> [] \<and>
       last h = \<lparr>m_role = ''assistant'', m_content = fallback, m_ts = e_time_reply ev\<rparr>"
    if nn: "0 \<le> MAX_CONTEXT"
  proof -
    note l = append_message_last [OF nn ok b]
    then have "get_chat_history (snd (api_send MAX_CONTEXT ev r data)) uid cid =
        Inr (stored (snd (api_send MAX_CONTEXT ev r data)) uid cid)"
      by (simp add: get_chat_history_stored)
    with l show ?thesis by blast
  qed
  with a show ?thesis by blast
qed

theorem fallback_committed_witness:
  "api_send_prepare 20 (example_env (Raises ''unavailable'')) Map.empty example_request =
     Inr (''u1'', ''c1'',
          build_prompt [\<lparr>m_role = ''user'', m_content = ''hello'', m_ts = 2\<rparr>] ''en'' ''hello'',
          [chat_history_key ''u1'' ''c1'' \<mapsto>
             RList [\<lparr>m_role = ''user'', m_content = ''hello'', m_ts = 2\<rparr>],
           user_lang_key ''u1'' \<mapsto> RText ''en'']) \<and>
   e_generate (example_env (Raises ''unavailable''))
     (build_prompt [\<lparr>m_role = ''user'', m_content = ''hello'', m_ts = 2\<rparr>] ''en'' ''hello'') = Raises ''unavailable'' \<and>
   (0::int) \<le> 20 \<and>
   fst (api_send 20 (example_env (Raises ''unavailable'')) Map.empty example_request) =
     StreamingResponse [fallback] None \<and>
   get_chat_history
     (snd (api_send 20 (example_env (Raises ''unavailable'')) Map.empty example_request))
     ''u1'' ''c1'' =
     Inr [\<lparr>m_role = ''user'', m_content = ''hello'', m_ts = 2\<rparr>,
          \<lparr>m_role = ''assistant'', m_content = fallback, m_ts = 3\<rparr>]"
proof -
  note th = fallback_committed [OF example_prepare example_generate, of "''unavailable''",
      unfolded example_time_reply]
  have z: "(0::int) \<le> 20" by simp
  from th have a: "fst (api_send 20 (example_env (Raises ''unavailable'')) Map.empty
      example_request) = StreamingResponse [fallback] None"
    and b: "append_message 20
      [chat_history_key ''u1'' ''c1'' \<mapsto>
             RList [\<lparr>m_role = ''user'', m_content = ''hello'', m_ts = 2\<rparr>],
           user_lang_key ''u1'' \<mapsto> RText ''en'']
      ''u1'' ''c1'' ''assistant'' fallback 3 =
      Inr (snd (api_send 20 (example_env (Raises ''unavailable'')) Map.empty example_request))"
    by blast+
  from example_after_append [OF b] a example_prepare [of "Raises ''unavailable''"]
    example_generate [of "Raises ''unavailable''"] z
  show ?thesis by blast
qed

text \<open>
  With the window size -1 the trim after each push is \<open>LTRIM key 1 -1\<close>, which drops the
  only item: the client is sent the fallback text, and the history read afterwards is
  empty.
\<close>

theorem fallback_lost_at_negative_window:
  "fst (api_send (- 1) (example_env (Raises ''unavailable'')) Map.empty example_request) =
     StreamingResponse [fallback] None \<and>
   get_chat_history
     (snd (api_send (- 1) (example_env (Raises ''unavailable'')) Map.empty example_request))
     ''u1'' ''c1'' = Inr []"
  by (simp add: api_send_def example_prepare_negative example_generate example_time_reply
      example_append_negative get_chat_history_def r_lrange_def history_key_not_lang)

text \<open>
  C6. For every request that reaches the provider, whatever the provider does (the call
  raises, the stream ends normally, the stream fails after some chunks): take the text
  shown to the client, that is the fragments of the response, leaving out the diagnostic
  fragment that follows a failure in mid-stream, and normalise its white space. If the
  result is empty, the store is left as it was before the reply; otherwise the store is the
  result of one \<open>append_message\<close> with role \<open>assistant\<close> and exactly that text.
\<close>

theorem persisted_reply:
  assumes "api_send_prepare MAX_CONTEXT ev r data = Inr (uid, cid, prompt, r3)"
  shows "(normalized (shown_reply (e_generate ev prompt) (fst (api_send MAX_CONTEXT ev r data))) = [] \<longrightarrow>
        snd (api_send MAX_CONTEXT ev r data) = r3) \<and>
     (normalized (shown_reply (e_generate ev prompt) (fst (api_send MAX_CONTEXT ev r data))) \<noteq> [] \<longrightarrow>
        append_message MAX_CONTEXT r3 uid cid ''assistant''
          (normalized (shown_reply (e_generate ev prompt) (fst (api_send MAX_CONTEXT ev r data))))
          (e_time_reply ev) = Inr (snd (api_send MAX_CONTEXT ev r data)))"
proof (cases "e_generate ev prompt")
  case (Raises e)
  note a = api_send_Raises [OF assms Raises]
  then have "shown_reply (e_generate ev prompt) (fst (api_send MAX_CONTEXT ev r data)) = fallback"
    by (simp add: shown_reply_def streamed_def Raises)
  moreover have "fallback \<noteq> []" by (simp add: fallback_def)
  ultimately show ?thesis using a by (simp add: normalized_fallback)
next
  case (Stream chunks err)
  note a = api_send_Stream [OF assms Stream]
  then have "shown_reply (e_generate ev prompt) (fst (api_send MAX_CONTEXT ev r data)) =
      concat (map piece_of chunks)"
    by (cases err) (simp_all add: shown_reply_def streamed_def Stream diagnostic_def)
  with a show ?thesis by simp
qed


theorem persisted_reply_witness:
  "api_send_prepare 20 (example_env (Stream [Chunk (Some ''Hi'') []] (Some ''boom''))) Map.empty
      example_request =
     Inr (''u1'', ''c1'',
          build_prompt [\<lparr>m_role = ''user'', m_content = ''hello'', m_ts = 2\<rparr>] ''en'' ''hello'',
          [chat_history_key ''u1'' ''c1'' \<mapsto>
             RList [\<lparr>m_role = ''user'', m_content = ''hello'', m_ts = 2\<rparr>],
           user_lang_key ''u1'' \<mapsto> RText ''en'']) \<and>
   shown_reply (Stream [Chunk (Some ''Hi'') []] (Some ''boom''))
     (fst (api_send 20 (example_env (Stream [Chunk (Some ''Hi'') []] (Some ''boom''))) Map.empty
        example_request)) = ''Hi'' \<and>
   append_message 20
      [chat_history_key ''u1'' ''c1'' \<mapsto>
             RList [\<lparr>m_role = ''user'', m_content = ''hello'', m_ts = 2\<rparr>],
           user_lang_key ''u1'' \<mapsto> RText ''en'']
      ''u1'' ''c1'' ''assistant'' ''Hi'' 3 =
     Inr (snd (api_send 20 (example_env (Stream [Chunk (Some ''Hi'') []] (Some ''boom''))) Map.empty
        example_request))"
proof -
  let ?out = "Stream [Chunk (Some ''Hi'') []] (Some ''boom'')"
  note s = api_send_Stream [OF example_prepare example_generate, of "[Chunk (Some ''Hi'') []]"
      "Some ''boom''"]
  then have f: "fst (api_send 20 (example_env ?out) Map.empty example_request) =
      StreamingResponse (map piece_of [Chunk (Some ''Hi'') []] @ diagnostic (Some ''boom'')) None"
    by (rule conjunct1)
  have sh: "shown_reply ?out (fst (api_send 20 (example_env ?out) Map.empty example_request)) = ''Hi''"
    by (simp add: f shown_reply_def streamed_def piece_of_def diagnostic_def)
  have n: "normalized ''Hi'' = ''Hi''" by (simp add: normalized_def is_space_def)
  note th = persisted_reply [OF example_prepare, of ?out,
      unfolded example_generate example_time_reply sh n]
  have ne: "''Hi'' \<noteq> []" by simp
  from th ne have "append_message 20
      [chat_history_key ''u1'' ''c1'' \<mapsto>
             RList [\<lparr>m_role = ''user'', m_content = ''hello'', m_ts = 2\<rparr>],
           user_lang_key ''u1'' \<mapsto> RText ''en'']
      ''u1'' ''c1'' ''assistant'' ''Hi'' 3 =
     Inr (snd (api_send 20 (example_env ?out) Map.empty example_request))"
    by blast
  with sh example_prepare [of ?out] show ?thesis by blast
qed

text \<open>
  Without that exception the property fails where the stream raises after a chunk: the client is sent
  \<open>Hi\<close> and then the diagnostic fragment, which normalise together to
  \<open>Hi [Error: boom]\<close>, while the assistant message stored has the content \<open>Hi\<close>.
\<close>

theorem persisted_reply_omits_diagnostic:
  "streamed (fst (api_send 20 (example_env (Stream [Chunk (Some ''Hi'') []] (Some ''boom''))) Map.empty
      example_request)) = [''Hi'', nl @ ''[Error: boom]''] \<and>
   normalized (concat [''Hi'', nl @ ''[Error: boom]'']) = ''Hi [Error: boom]'' \<and>
   get_chat_history
     (snd (api_send 20 (example_env (Stream [Chunk (Some ''Hi'') []] (Some ''boom''))) Map.empty
        example_request)) ''u1'' ''c1'' =
     Inr [\<lparr>m_role = ''user'', m_content = ''hello'', m_ts = 2\<rparr>,
          \<lparr>m_role = ''assistant'', m_content = ''Hi'', m_ts = 3\<rparr>] \<and>
   ''Hi'' \<noteq> ''Hi [Error: boom]''"
proof -
  let ?out = "Stream [Chunk (Some ''Hi'') []] (Some ''boom'')"
  have p: "map piece_of [Chunk (Some ''Hi'') []] = [''Hi'']" by (simp add: piece_of_def)
  have n: "normalized (concat [''Hi'']) = ''Hi''" by (simp add: normalized_def is_space_def)
  have ne: "''Hi'' \<noteq> []" by simp
  note s = api_send_Stream [OF example_prepare example_generate, of "[Chunk (Some ''Hi'') []]"
      "Some ''boom''", unfolded p n example_time_reply]
  then have f: "fst (api_send 20 (example_env ?out) Map.empty example_request) =
      StreamingResponse ([''Hi''] @ diagnostic (Some ''boom'')) None"
    by (rule conjunct1)
  from s ne have b: "append_message 20
      [chat_history_key ''u1'' ''c1'' \<mapsto>
             RList [\<lparr>m_role = ''user'', m_content = ''hello'', m_ts = 2\<rparr>],
           user_lang_key ''u1'' \<mapsto> RText ''en'']
      ''u1'' ''c1'' ''assistant'' ''Hi'' 3 =
     Inr (snd (api_send 20 (example_env ?out) Map.empty example_request))"
    by blast
  have a: "streamed (fst (api_send 20 (example_env ?out) Map.empty example_request)) =
      [''Hi'', nl @ ''[Error: boom]'']"
    by (simp add: f streamed_def diagnostic_def)
  have c: "normalized (concat [''Hi'', nl @ ''[Error: boom]'']) = ''Hi [Error: boom]''"
    by (simp add: normalized_def nl_def is_space_def)
  have d: "''Hi'' \<noteq> ''Hi [Error: boom]''" by simp
  from a c d example_after_append [OF b] show ?thesis by blast
qed

section \<open>Histories and chat lists\<close>

lemma list_user_chats_frame:
  "r1 (user_chats_key u) = r (user_chats_key u) \<Longrightarrow> list_user_chats r1 u = list_user_chats r u"
  by (simp add: list_user_chats_def r_get_def)

lemma prepare_supplied:
  assumes "history_ok r uid cid" and "cid \<noteq> []" and "strip m \<noteq> []"
  shows "\<exists>prompt r2.
     append_message n r uid cid ''user'' (strip m) (e_time_user ev) = Inr r2 \<and>
     api_send_prepare n ev r \<lparr>d_uid = Some uid, d_chat_id = Some cid, d_message = Some m\<rparr> =
       Inr (uid, cid, prompt,
            r_set r2 (user_lang_key uid) (RText (detect_lang_safe (e_detect ev) (strip m))))"
proof -
  from append_message_any [OF assms(1), of n "''user''" "strip m" "e_time_user ev"]
  obtain r2 where a: "append_message n r uid cid ''user'' (strip m) (e_time_user ev) = Inr r2"
    and ok2: "history_ok r2 uid cid" by blast
  let ?d = "detect_lang_safe (e_detect ev) (strip m)"
  let ?r3 = "r_set r2 (user_lang_key uid) (RText ?d)"
  have "?r3 (chat_history_key uid cid) = r2 (chat_history_key uid cid)"
    by (simp add: r_set_def history_key_not_lang)
  with ok2 have ok3: "history_ok ?r3 uid cid" by (simp add: history_ok_def)
  then have g: "get_chat_history ?r3 uid cid = Inr (stored ?r3 uid cid)"
    by (rule get_chat_history_stored)
  have l: "read_user_lang ?r3 uid = Inr (if ?d \<noteq> [] then ?d else ''en'')"
    by (simp add: read_user_lang_def r_get_def r_set_def)
  have "api_send_prepare n ev r \<lparr>d_uid = Some uid, d_chat_id = Some cid, d_message = Some m\<rparr> =
       Inr (uid, cid, build_prompt (stored ?r3 uid cid) (if ?d \<noteq> [] then ?d else ''en'') (strip m), ?r3)"
    using assms(2,3) by (simp add: api_send_prepare_def resolve_chat_def a g l Let_def)
  with a show ?thesis by blast
qed

lemma send_supplied_chat:
  assumes "history_ok r uid cid" and "0 \<le> MAX_CONTEXT" and "cid \<noteq> []" and "strip m \<noteq> []"
  shows "(r (chat_history_key uid cid) = None \<longrightarrow> get_chat_history r uid cid = Inr []) \<and>
     (\<exists>r1. append_message MAX_CONTEXT r uid cid role content now = Inr r1 \<and>
           list_user_chats r1 uid = list_user_chats r uid) \<and>
     (\<exists>h. get_chat_history
             (snd (api_send MAX_CONTEXT ev r
                \<lparr>d_uid = Some uid, d_chat_id = Some cid, d_message = Some m\<rparr>)) uid cid = Inr h \<and>
          h \<noteq> []) \<and>
     list_user_chats
        (snd (api_send MAX_CONTEXT ev r
           \<lparr>d_uid = Some uid, d_chat_id = Some cid, d_message = Some m\<rparr>)) uid =
       list_user_chats r uid"
proof -
  let ?data = "\<lparr>d_uid = Some uid, d_chat_id = Some cid, d_message = Some m\<rparr>"
  let ?rf = "snd (api_send MAX_CONTEXT ev r ?data)"
  have p1: "r (chat_history_key uid cid) = None \<longrightarrow> get_chat_history r uid cid = Inr []"
    by (simp add: get_chat_history_def r_lrange_def)
  from append_message_any [OF assms(1), of MAX_CONTEXT role content now]
  obtain r1 where a1: "append_message MAX_CONTEXT r uid cid role content now = Inr r1"
    and f1: "\<forall>k. k \<noteq> chat_history_key uid cid \<longrightarrow> r1 k = r k" by blast
  from f1 have "r1 (user_chats_key uid) = r (user_chats_key uid)"
    using history_key_not_chats [of uid cid uid] by metis
  then have p2: "list_user_chats r1 uid = list_user_chats r uid"
    by (rule list_user_chats_frame)
  from prepare_supplied [OF assms(1,3,4), of MAX_CONTEXT ev] obtain prompt r2 where
    a2: "append_message MAX_CONTEXT r uid cid ''user'' (strip m) (e_time_user ev) = Inr r2" and
    pr: "api_send_prepare MAX_CONTEXT ev r ?data =
       Inr (uid, cid, prompt,
            r_set r2 (user_lang_key uid) (RText (detect_lang_safe (e_detect ev) (strip m))))"
    by blast
  let ?r3 = "r_set r2 (user_lang_key uid) (RText (detect_lang_safe (e_detect ev) (strip m)))"
  from append_message_any [OF assms(1), of MAX_CONTEXT "''user''" "strip m" "e_time_user ev"] a2
  have f2: "\<forall>k. k \<noteq> chat_history_key uid cid \<longrightarrow> r2 k = r k" by simp
  have l2: "history_ok r2 uid cid \<and> stored r2 uid cid \<noteq> []"
    using append_message_last [OF assms(2,1) a2] by simp
  have h3: "?r3 (chat_history_key uid cid) = r2 (chat_history_key uid cid)"
    by (simp add: r_set_def history_key_not_lang)
  have c3: "?r3 (user_chats_key uid) = r (user_chats_key uid)"
    using f2 history_key_not_chats [of uid cid uid] lang_key_not_chats [of uid uid]
    by (simp add: r_set_def)
  have ok3: "history_ok ?r3 uid cid" and st3: "stored ?r3 uid cid \<noteq> []"
    using l2 h3 by (simp_all add: history_ok_def stored_def)
  have fin: "history_ok ?rf uid cid \<and> stored ?rf uid cid \<noteq> [] \<and>
      ?rf (user_chats_key uid) = r (user_chats_key uid)"
  proof -
    from api_send_final [OF pr] consider
      (same) "?rf = ?r3"
      | (app) content where
        "append_message MAX_CONTEXT ?r3 uid cid ''assistant'' content (e_time_reply ev) = Inr ?rf"
      by blast
    then show ?thesis
    proof cases
      case same
      with ok3 st3 c3 show ?thesis by simp
    next
      case app
      from append_message_last [OF assms(2) ok3 app]
      have "history_ok ?rf uid cid \<and> stored ?rf uid cid \<noteq> []" by simp
      moreover from append_message_any [OF ok3, of MAX_CONTEXT "''assistant''" content "e_time_reply ev"] app
      have "\<forall>k. k \<noteq> chat_history_key uid cid \<longrightarrow> ?rf k = ?r3 k" by simp
      then have "?rf (user_chats_key uid) = ?r3 (user_chats_key uid)"
        using history_key_not_chats [of uid cid uid] by metis
      ultimately show ?thesis using c3 by simp
    qed
  qed
  then have p3: "\<exists>h. get_chat_history ?rf uid cid = Inr h \<and> h \<noteq> []"
    by (simp add: get_chat_history_stored)
  from fin have "?rf (user_chats_key uid) = r (user_chats_key uid)" by blast
  then have p4: "list_user_chats ?rf uid = list_user_chats r uid"
    by (rule list_user_chats_frame)
  from p1 a1 p2 p3 p4 show ?thesis by blast
qed

lemma append_message_frame:
  assumes "append_message n r u c role content now = Inr r1" and "k \<noteq> chat_history_key u c"
  shows "r1 k = r k"
  using assms
  by (auto simp: append_message_def r_rpush_def r_ltrim_def Let_def
      split: option.splits rvalue.splits sum.splits if_splits)

lemma create_chat_frame:
  assumes "create_chat_for_user r u title uuid4 now = Inr (cid, r1)"
  shows "cid = take 8 uuid4 \<and> (k \<noteq> user_chats_key u \<longrightarrow> r1 k = r k)"
  using assms
  by (auto simp: create_chat_for_user_def r_set_def Let_def split: sum.splits)

lemma resolve_chat_frame:
  assumes "resolve_chat ev r uid (d_chat_id data) = Inr (cid, r1)"
  shows "cid = request_cid ev data \<and> (k \<noteq> user_chats_key uid \<longrightarrow> r1 k = r k)"
proof (cases "d_chat_id data")
  case None
  with assms have "create_chat_for_user r uid None (e_uuid4 ev) (e_time_chat ev) =
      Inr (cid, r1)" by (simp add: resolve_chat_def)
  from create_chat_frame [OF this, of k] None show ?thesis by (simp add: request_cid_def)
next
  case (Some c)
  show ?thesis
  proof (cases "c = []")
    case True
    with assms Some have "create_chat_for_user r uid None (e_uuid4 ev) (e_time_chat ev) =
      Inr (cid, r1)" by (simp add: resolve_chat_def)
    from create_chat_frame [OF this, of k] Some True show ?thesis by (simp add: request_cid_def)
  next
    case False
    with assms Some show ?thesis by (simp add: resolve_chat_def request_cid_def)
  qed
qed

lemma event_stream_frame:
  assumes "k \<noteq> chat_history_key uid cid"
  shows "snd (event_stream n r uid cid now chunks err) k = r k"
proof -
  obtain collected yielded where sl: "stream_loop chunks [] [] = (collected, yielded)"
    by (cases "stream_loop chunks [] []")
  show ?thesis
  proof (cases "append_message n r uid cid ''assistant'' (strip (sub_ws collected)) now")
    case (Inl e)
    then show ?thesis by (simp add: event_stream_def sl Let_def)
  next
    case (Inr r1)
    from append_message_frame [OF Inr assms] Inr show ?thesis
      by (simp add: event_stream_def sl Let_def)
  qed
qed

lemma prepare_frame:
  assumes "k \<noteq> user_chats_key (request_uid data)" and "k \<noteq> user_lang_key (request_uid data)"
    and "k \<noteq> chat_history_key (request_uid data) (request_cid ev data)"
  shows "(api_send_prepare n ev r data = Inl (e, r0) \<longrightarrow> r0 k = r k) \<and>
     (api_send_prepare n ev r data = Inr (uid, cid, prompt, r3) \<longrightarrow>
        uid = request_uid data \<and> cid = request_cid ev data \<and> r3 k = r k)"
proof -
  let ?U = "request_uid data"
  let ?um = "strip (case d_message data of None \<Rightarrow> [] | Some m \<Rightarrow> m)"
  show ?thesis
  proof (cases "?um = []")
    case True
    then show ?thesis by (auto simp: api_send_prepare_def Let_def)
  next
    case nb: False
    show ?thesis
    proof (cases "resolve_chat ev r ?U (d_chat_id data)")
      case (Inl e1)
      with nb show ?thesis by (auto simp: api_send_prepare_def Let_def request_uid_def)
    next
      case (Inr p)
      obtain c1 r1 where p: "p = (c1, r1)" by (cases p)
      from resolve_chat_frame [OF Inr [unfolded p], of k] assms(1)
      have c1: "c1 = request_cid ev data" and f1: "r1 k = r k" by simp_all
      show ?thesis
      proof (cases "append_message n r1 ?U c1 ''user'' ?um (e_time_user ev)")
        case (Inl e2)
        with nb Inr p f1 show ?thesis
          by (auto simp: api_send_prepare_def Let_def request_uid_def)
      next
        case a: (Inr r2)
        from append_message_frame [OF a] assms(3) c1 have f2: "r2 k = r1 k" by simp
        let ?r3 = "r_set r2 (user_lang_key ?U) (RText (detect_lang_safe (e_detect ev) ?um))"
        have f3: "?r3 k = r k" using assms(2) f1 f2 by (simp add: r_set_def)
        show ?thesis
        proof (cases "get_chat_history ?r3 ?U c1")
          case g: (Inl e3)
          with nb Inr p a f3 show ?thesis
            by (auto simp: api_send_prepare_def Let_def request_uid_def)
        next
          case g: (Inr history)
          show ?thesis
          proof (cases "read_user_lang ?r3 ?U")
            case (Inl e4)
            with nb Inr p a g f3 show ?thesis
              by (auto simp: api_send_prepare_def Let_def request_uid_def)
          next
            case l: (Inr user_lang)
            with nb Inr p a g f3 c1 show ?thesis
              by (auto simp: api_send_prepare_def Let_def request_uid_def)
          qed
        qed
      qed
    qed
  qed
qed

lemma api_send_frame:
  assumes "k \<noteq> user_chats_key (request_uid data)" and "k \<noteq> user_lang_key (request_uid data)"
    and "k \<noteq> chat_history_key (request_uid data) (request_cid ev data)"
  shows "snd (api_send n ev r data) k = r k"
proof (cases "api_send_prepare n ev r data")
  case (Inl p)
  obtain e r0 where p: "p = (e, r0)" by (cases p)
  from prepare_frame [OF assms, of n r e r0] Inl p have "r0 k = r k" by simp
  with Inl p show ?thesis by (simp add: api_send_def)
next
  case (Inr q)
  obtain uid cid prompt r3 where q: "q = (uid, cid, prompt, r3)" by (cases q)
  from prepare_frame [OF assms, of n r _ _ uid cid prompt r3] Inr q
  have u: "uid = request_uid data" and c: "cid = request_cid ev data" and f: "r3 k = r k"
    by simp_all
  have kk: "k \<noteq> chat_history_key uid cid" using assms(3) u c by simp
  show ?thesis
  proof (cases "e_generate ev prompt")
    case (Raises e)
    show ?thesis
    proof (cases "append_message n r3 uid cid ''assistant'' fallback (e_time_reply ev)")
      case (Inl e1)
      with Inr q Raises f show ?thesis by (simp add: api_send_def)
    next
      case a: (Inr r4)
      from append_message_frame [OF a kk] f Inr q Raises a show ?thesis
        by (simp add: api_send_def)
    qed
  next
    case (Stream chunks err)
    with Inr q f event_stream_frame [OF kk, of n r3 "e_time_reply ev" chunks err]
    show ?thesis by (simp add: api_send_def)
  qed
qed

lemma step_frame:
  assumes "chat_history_key uid cid \<notin> set (call_keys c)"
  shows "step n r c (chat_history_key uid cid) = r (chat_history_key uid cid)"
proof (cases c)
  case (AppendMessage u c1 role content now)
  with assms have k: "chat_history_key uid cid \<noteq> chat_history_key u c1" by simp
  show ?thesis
  proof (cases "append_message n r u c1 role content now")
    case (Inl e)
    with AppendMessage show ?thesis by simp
  next
    case (Inr r1)
    from append_message_frame [OF Inr k] Inr AppendMessage show ?thesis by simp
  qed
next
  case (CreateChat u title uuid4 now)
  show ?thesis
  proof (cases "create_chat_for_user r u title uuid4 now")
    case (Inl e)
    with CreateChat show ?thesis by simp
  next
    case (Inr p)
    obtain c1 r1 where p: "p = (c1, r1)" by (cases p)
    from create_chat_frame [OF Inr [unfolded p], of "chat_history_key uid cid"]
      history_key_not_chats [of uid cid u]
    have "r1 (chat_history_key uid cid) = r (chat_history_key uid cid)" by simp
    with Inr p CreateChat show ?thesis by simp
  qed
next
  case (SendMessage ev data)
  with assms have "chat_history_key uid cid \<noteq>
      chat_history_key (request_uid data) (request_cid ev data)" by simp
  from api_send_frame [OF history_key_not_chats history_key_not_lang this, of n r]
    SendMessage show ?thesis by simp
qed

lemma run_calls_frame:
  assumes "list_all (\<lambda>c. chat_history_key uid cid \<notin> set (call_keys c)) calls"
  shows "run_calls n r calls (chat_history_key uid cid) = r (chat_history_key uid cid)"
  using assms
proof (induction calls arbitrary: r)
  case Nil
  then show ?case by (simp add: run_calls_def)
next
  case (Cons c calls)
  then have a: "chat_history_key uid cid \<notin> set (call_keys c)"
    and b: "list_all (\<lambda>c. chat_history_key uid cid \<notin> set (call_keys c)) calls" by simp_all
  have "run_calls n r (c # calls) = run_calls n (step n r c) calls"
    by (simp add: run_calls_def)
  with Cons.IH [OF b, of "step n r c"] step_frame [OF a, of n r] show ?case by simp
qed

lemma chat_history_key_inj: "chat_history_key uid c1 = chat_history_key uid c2 \<longleftrightarrow> c1 = c2"
  by (simp add: chat_history_key_def)

lemma example_create:
  "create_chat_for_user Map.empty ''u1'' None ''3f2b8c1e-9a4d-4e6f-8b7a-1c2d3e4f5a6b'' 1 =
     Inr (''3f2b8c1e'',
          [user_chats_key ''u1'' \<mapsto>
             RChats [\<lparr>c_chat_id = ''3f2b8c1e'', c_title = ''Chat 1'', c_created = 1\<rparr>]])"
  by (simp add: create_chat_for_user_def r_get_def loads_chats_def r_set_def str_nat.simps Let_def)

lemma example_collision:
  "get_chat_history
     (run_calls 20 Map.empty [AppendMessage ''a'' ''b:c'' ''user'' ''x'' 1]) ''a:b'' ''c'' =
     Inr [\<lparr>m_role = ''user'', m_content = ''x'', m_ts = 1\<rparr>]"
  by (simp add: run_calls_def append_message_def r_rpush_def r_ltrim_def list_range_def Let_def
      get_chat_history_def r_lrange_def chat_history_key_def)

lemma example_empty_id:
  "get_chat_history
     (snd (api_send 20 (example_env (Raises ''unavailable'')) Map.empty
        \<lparr>d_uid = Some ''u1'', d_chat_id = Some [], d_message = Some ''hello''\<rparr>)) ''u1'' [] = Inr [] \<and>
   list_user_chats
     (snd (api_send 20 (example_env (Raises ''unavailable'')) Map.empty
        \<lparr>d_uid = Some ''u1'', d_chat_id = Some [], d_message = Some ''hello''\<rparr>)) ''u1'' =
     Inr [\<lparr>c_chat_id = ''3f2b8c1e'', c_title = ''Chat 1'', c_created = 1\<rparr>]"
proof -
  let ?ev = "example_env (Raises ''unavailable'')"
  let ?data = "\<lparr>d_uid = Some ''u1'', d_chat_id = Some [], d_message = Some ''hello''\<rparr>"
  let ?rf = "snd (api_send 20 ?ev Map.empty ?data)"
  have u: "request_uid ?data = ''u1''" by (simp add: request_uid_def)
  have c: "request_cid ?ev ?data = ''3f2b8c1e''" by (simp add: request_cid_def example_env_def)
  have k: "chat_history_key ''u1'' [] \<noteq> chat_history_key (request_uid ?data) (request_cid ?ev ?data)"
    by (simp add: u c chat_history_key_def)
  from api_send_frame [OF history_key_not_chats history_key_not_lang k, of 20 Map.empty]
  have "?rf (chat_history_key ''u1'' []) = None" by simp
  then have a: "get_chat_history ?rf ''u1'' [] = Inr []"
    by (simp add: get_chat_history_def r_lrange_def)
  have r: "resolve_chat ?ev Map.empty ''u1'' (Some []) =
      Inr (''3f2b8c1e'',
          [user_chats_key ''u1'' \<mapsto>
             RChats [\<lparr>c_chat_id = ''3f2b8c1e'', c_title = ''Chat 1'', c_created = 1\<rparr>]])"
    using example_create by (simp add: resolve_chat_def example_env_def)
  let ?X = "RChats [\<lparr>c_chat_id = ''3f2b8c1e'', c_title = ''Chat 1'', c_created = 1\<rparr>]"
  let ?um = "\<lparr>m_role = ''user'', m_content = ''hello'', m_ts = 2\<rparr>"
  let ?r3 = "[user_chats_key ''u1'' \<mapsto> ?X, chat_history_key ''u1'' ''3f2b8c1e'' \<mapsto> RList [?um],
              user_lang_key ''u1'' \<mapsto> RText ''en'']"
  have s: "strip ''hello'' = ''hello''" by (simp add: strip_def is_space_def)
  have d: "detect_lang_safe (\<lambda>t. None) ''hello'' = ''en''"
    by (simp add: detect_lang_safe_cases stat_code_def startswith_def hindi_hits_def
        lower_def lower_char_def is_word_char_def hindi_keywords_def)
  have ap: "append_message 20 [user_chats_key ''u1'' \<mapsto> ?X] ''u1'' ''3f2b8c1e'' ''user'' ''hello'' 2 =
      Inr [user_chats_key ''u1'' \<mapsto> ?X, chat_history_key ''u1'' ''3f2b8c1e'' \<mapsto> RList [?um]]"
    by (auto simp: append_message_def r_rpush_def r_ltrim_def list_range_def Let_def
        history_key_not_chats)
  have g: "get_chat_history ?r3 ''u1'' ''3f2b8c1e'' = Inr [?um]"
    by (simp add: get_chat_history_def r_lrange_def list_range_all history_key_not_lang)
  have l: "read_user_lang ?r3 ''u1'' = Inr ''en''"
    by (simp add: read_user_lang_def r_get_def)
  have pr: "api_send_prepare 20 ?ev Map.empty ?data =
      Inr (''u1'', ''3f2b8c1e'', build_prompt [?um] ''en'' ''hello'', ?r3)"
    using r by (simp add: api_send_prepare_def s example_env_def d ap r_set_def g l Let_def)
  from api_send_Raises [OF pr example_generate]
  have b: "append_message 20 ?r3 ''u1'' ''3f2b8c1e'' ''assistant'' fallback
      (e_time_reply ?ev) = Inr ?rf" by (rule conjunct2)
  from append_message_frame [OF b, of "user_chats_key ''u1''"] history_key_not_chats [of "''u1''" "''3f2b8c1e''" "''u1''"]
  have "?rf (user_chats_key ''u1'') = ?r3 (user_chats_key ''u1'')" by metis
  then have "?rf (user_chats_key ''u1'') = Some ?X"
    by (simp add: history_key_not_chats [symmetric] lang_key_not_chats [symmetric])
  then have "list_user_chats ?rf ''u1'' =
      Inr [\<lparr>c_chat_id = ''3f2b8c1e'', c_title = ''Chat 1'', c_created = 1\<rparr>]"
    by (simp add: list_user_chats_def r_get_def loads_chats_def)
  with a show ?thesis by blast
qed

lemma example_blank:
  "get_chat_history
     (snd (api_send 20 (example_env (Raises ''unavailable'')) Map.empty
        \<lparr>d_uid = Some ''u1'', d_chat_id = Some ''c1'', d_message = Some ''   ''\<rparr>)) ''u1'' ''c1'' =
     Inr []"
  by (simp add: api_send_def api_send_prepare_def strip_def is_space_def Let_def
      get_chat_history_def r_lrange_def)

text \<open>
  C10. Neither \<open>append_message\<close> nor \<open>get_chat_history\<close> looks at the user's chat list. For
  every user and every chat identifier whose history key holds no string value:
  \<^item> where the key holds nothing and a sequence of calls (appends, chat creations, send
    requests) has none that pushes to that key, \<open>get_chat_history\<close> after the calls returns
    the empty list; two chats of one user have the same key only if they are the same chat;
  \<^item> \<open>append_message\<close> succeeds, whether or not the chat list has the identifier, and the
    chat list reads as before;
  \<^item> where the window size is not negative, a request that supplies the identifier, not the
    empty text, with a message that is not blank leaves a non-empty history under it, and
    the chat list of the user reads as before: an identifier that \<open>list_user_chats\<close> did not
    return is still not returned.
\<close>

theorem history_without_chat_list:
  assumes "history_ok r uid cid"
  shows "(r (chat_history_key uid cid) = None \<and>
        list_all (\<lambda>c. chat_history_key uid cid \<notin> set (call_keys c)) calls \<longrightarrow>
        get_chat_history (run_calls MAX_CONTEXT r calls) uid cid = Inr []) \<and>
     (chat_history_key uid cid = chat_history_key uid cid2) = (cid = cid2) \<and>
     (\<exists>r1. append_message MAX_CONTEXT r uid cid role content now = Inr r1 \<and>
           list_user_chats r1 uid = list_user_chats r uid) \<and>
     (0 \<le> MAX_CONTEXT \<and> cid \<noteq> [] \<and> strip m \<noteq> [] \<longrightarrow>
        (\<exists>h. get_chat_history
                (snd (api_send MAX_CONTEXT ev r
                   \<lparr>d_uid = Some uid, d_chat_id = Some cid, d_message = Some m\<rparr>)) uid cid = Inr h \<and>
             h \<noteq> []) \<and>
        list_user_chats
           (snd (api_send MAX_CONTEXT ev r
              \<lparr>d_uid = Some uid, d_chat_id = Some cid, d_message = Some m\<rparr>)) uid =
          list_user_chats r uid)"
proof -
  have p1: "get_chat_history (run_calls MAX_CONTEXT r calls) uid cid = Inr []"
    if "r (chat_history_key uid cid) = None"
      and "list_all (\<lambda>c. chat_history_key uid cid \<notin> set (call_keys c)) calls"
  proof -
    from run_calls_frame [OF that(2), of MAX_CONTEXT r] that(1)
    have "run_calls MAX_CONTEXT r calls (chat_history_key uid cid) = None" by simp
    then show ?thesis by (simp add: get_chat_history_def r_lrange_def)
  qed
  have p2: "(chat_history_key uid cid = chat_history_key uid cid2) = (cid = cid2)"
    by (rule chat_history_key_inj)
  from append_message_any [OF assms, of MAX_CONTEXT role content now]
  obtain r1 where a1: "append_message MAX_CONTEXT r uid cid role content now = Inr r1"
    and f1: "\<forall>k. k \<noteq> chat_history_key uid cid \<longrightarrow> r1 k = r k" by blast
  from f1 have "r1 (user_chats_key uid) = r (user_chats_key uid)"
    using history_key_not_chats [of uid cid uid] by metis
  then have "list_user_chats r1 uid = list_user_chats r uid"
    by (rule list_user_chats_frame)
  with a1 have p3: "\<exists>r1. append_message MAX_CONTEXT r uid cid role content now = Inr r1 \<and>
           list_user_chats r1 uid = list_user_chats r uid" by blast
  have p4: "(\<exists>h. get_chat_history
                (snd (api_send MAX_CONTEXT ev r
                   \<lparr>d_uid = Some uid, d_chat_id = Some cid, d_message = Some m\<rparr>)) uid cid = Inr h \<and>
             h \<noteq> []) \<and>
        list_user_chats
           (snd (api_send MAX_CONTEXT ev r
              \<lparr>d_uid = Some uid, d_chat_id = Some cid, d_message = Some m\<rparr>)) uid =
          list_user_chats r uid"
    if "0 \<le> MAX_CONTEXT" and "cid \<noteq> []" and "strip m \<noteq> []"
    using send_supplied_chat [OF assms that, of role content now ev] by blast
  from p1 p2 p3 p4 show ?thesis by blast
qed

theorem history_without_chat_list_witness:
  "history_ok Map.empty ''u1'' ''c1'' \<and>
   Map.empty (chat_history_key ''u1'' ''c1'') = (None :: rvalue option) \<and>
   list_all (\<lambda>c. chat_history_key ''u1'' ''c1'' \<notin> set (call_keys c))
      [CreateChat ''u1'' None ''3f2b8c1e-9a4d-4e6f-8b7a-1c2d3e4f5a6b'' 1,
       AppendMessage ''u1'' ''c2'' ''user'' ''x'' 2,
       SendMessage (example_env (Raises ''unavailable''))
         \<lparr>d_uid = Some ''u1'', d_chat_id = Some ''c3'', d_message = Some ''hey''\<rparr>] \<and>
   (0::int) \<le> 20 \<and> ''c1'' \<noteq> [] \<and> strip ''hello'' \<noteq> [] \<and>
   list_user_chats Map.empty ''u1'' = Inr [] \<and>
   get_chat_history
     (run_calls 20 Map.empty
        [CreateChat ''u1'' None ''3f2b8c1e-9a4d-4e6f-8b7a-1c2d3e4f5a6b'' 1,
       AppendMessage ''u1'' ''c2'' ''user'' ''x'' 2,
       SendMessage (example_env (Raises ''unavailable''))
         \<lparr>d_uid = Some ''u1'', d_chat_id = Some ''c3'', d_message = Some ''hey''\<rparr>]) ''u1'' ''c1'' = Inr [] \<and>
   (\<exists>h. get_chat_history
          (snd (api_send 20 (example_env (Raises ''unavailable'')) Map.empty example_request))
          ''u1'' ''c1'' = Inr h \<and> h \<noteq> []) \<and>
   list_user_chats
     (snd (api_send 20 (example_env (Raises ''unavailable'')) Map.empty example_request))
     ''u1'' = Inr []"
proof -
  let ?calls = "[CreateChat ''u1'' None ''3f2b8c1e-9a4d-4e6f-8b7a-1c2d3e4f5a6b'' 1,
       AppendMessage ''u1'' ''c2'' ''user'' ''x'' 2,
       SendMessage (example_env (Raises ''unavailable''))
         \<lparr>d_uid = Some ''u1'', d_chat_id = Some ''c3'', d_message = Some ''hey''\<rparr>]"
  have a: "history_ok Map.empty ''u1'' ''c1''" by (simp add: history_ok_def)
  have b: "(0::int) \<le> 20" by simp
  have c: "''c1'' \<noteq> []" by simp
  have d: "strip ''hello'' \<noteq> []" by (simp add: strip_def is_space_def)
  have e: "list_user_chats Map.empty ''u1'' = Inr []"
    by (simp add: list_user_chats_def r_get_def loads_chats_def)
  have f: "\<lparr>d_uid = Some ''u1'', d_chat_id = Some ''c1'', d_message = Some ''hello''\<rparr> =
      example_request"
    by (simp add: example_request_def)
  have g: "list_all (\<lambda>c. chat_history_key ''u1'' ''c1'' \<notin> set (call_keys c)) ?calls"
    by (simp add: request_uid_def request_cid_def chat_history_key_def)
  have n: "Map.empty (chat_history_key ''u1'' ''c1'') = (None :: rvalue option)" by simp
  note th = history_without_chat_list [OF a, of ?calls 20 "''c2''" "''user''" "''x''" 1 "''hello''"
      "example_env (Raises ''unavailable'')", unfolded f e]
  from th n g have r1: "get_chat_history (run_calls 20 Map.empty ?calls) ''u1'' ''c1'' = Inr []"
    by blast
  from th b c d have r2: "(\<exists>h. get_chat_history
          (snd (api_send 20 (example_env (Raises ''unavailable'')) Map.empty example_request))
          ''u1'' ''c1'' = Inr h \<and> h \<noteq> []) \<and>
     list_user_chats
       (snd (api_send 20 (example_env (Raises ''unavailable'')) Map.empty example_request))
       ''u1'' = Inr []"
    by blast
  from a n g b c d e r1 r2 show ?thesis by blast
qed

text \<open>
  The conditions are needed. History appears under a pair that no call used, when a call
  used another pair with the same key. A request with the empty text as chat identifier
  counts as one without identifier: it creates a chat, which \<open>list_user_chats\<close> returns,
  and leaves nothing under the empty identifier. With the window size -1 a request leaves
  no history. A request with a blank message is rejected and leaves no history.
\<close>

theorem history_conditions_needed:
  "(''a'', ''b:c'') \<noteq> (''a:b'', ''c'') \<and>
   get_chat_history
     (run_calls 20 Map.empty [AppendMessage ''a'' ''b:c'' ''user'' ''x'' 1]) ''a:b'' ''c'' =
     Inr [\<lparr>m_role = ''user'', m_content = ''x'', m_ts = 1\<rparr>] \<and>
   get_chat_history
     (snd (api_send 20 (example_env (Raises ''unavailable'')) Map.empty
        \<lparr>d_uid = Some ''u1'', d_chat_id = Some [], d_message = Some ''hello''\<rparr>)) ''u1'' [] = Inr [] \<and>
   list_user_chats
     (snd (api_send 20 (example_env (Raises ''unavailable'')) Map.empty
        \<lparr>d_uid = Some ''u1'', d_chat_id = Some [], d_message = Some ''hello''\<rparr>)) ''u1'' =
     Inr [\<lparr>c_chat_id = ''3f2b8c1e'', c_title = ''Chat 1'', c_created = 1\<rparr>] \<and>
   get_chat_history
     (snd (api_send (- 1) (example_env (Raises ''unavailable'')) Map.empty example_request))
     ''u1'' ''c1'' = Inr [] \<and>
   get_chat_history
     (snd (api_send 20 (example_env (Raises ''unavailable'')) Map.empty
        \<lparr>d_uid = Some ''u1'', d_chat_id = Some ''c1'', d_message = Some ''   ''\<rparr>)) ''u1'' ''c1'' =
     Inr []"
proof -
  have n: "get_chat_history
     (snd (api_send (- 1) (example_env (Raises ''unavailable'')) Map.empty example_request))
     ''u1'' ''c1'' = Inr []"
    by (simp add: api_send_def example_prepare_negative example_generate example_time_reply
        example_append_negative get_chat_history_def r_lrange_def history_key_not_lang)
  have l: "(''a'', ''b:c'') \<noteq> (''a:b'', ''c'')" by simp
  from l example_collision example_empty_id n example_blank show ?thesis by blast
qed

end
